theory Spec2Isabelle
  imports Main
begin

section \<open>JavaScript values and string primitives\<close>

text \<open>
  Strings are byte strings (\<open>char list\<close>), the UTF-8 form of the JavaScript string.
  \<open>String.prototype.toLowerCase\<close> and \<open>String.prototype.trim\<close> are Unicode-aware: on a string
  of ASCII characters they are computed here (A to Z mapped to a to z; tab, line feed,
  vertical tab, form feed, carriage return and space stripped from both ends), and on any
  other string they are what the engine's built-ins give, which is a parameter (\<open>builtins\<close>)
  of everything that calls them. A value that may be \<open>undefined\<close> is a
  \<open>string option\<close>. The same type serves for \<open>process.env\<close> entries, query parameters,
  request headers and optional JSON fields.
\<close>

type_synonym env = "string \<Rightarrow> string option"

definition truthy :: "string option \<Rightarrow> bool" where
  \<comment> \<open>JavaScript truthiness of a string-or-undefined value: \<open>undefined\<close> and \<open>''\<close> are falsy.\<close>
  "truthy v = (case v of None \<Rightarrow> False | Some s \<Rightarrow> s \<noteq> [])"

definition js_or :: "string option \<Rightarrow> string option \<Rightarrow> string option" where
  \<comment> \<open>\<open>a || b\<close>\<close>
  "js_or a b = (if truthy a then a else b)"

definition or_default :: "string option \<Rightarrow> string \<Rightarrow> string" where
  \<comment> \<open>\<open>a || 'literal'\<close>\<close>
  "or_default a d = (case a of None \<Rightarrow> d | Some s \<Rightarrow> if s = [] then d else s)"

definition js_str :: "string option \<Rightarrow> string" where
  \<comment> \<open>conversion to string, as in a template literal or URLSearchParams\<close>
  "js_str v = (case v of None \<Rightarrow> ''undefined'' | Some s \<Rightarrow> s)"

definition alnum :: "char \<Rightarrow> bool" where
  "alnum c = (c \<in> set ''ABCDEFGHIJKLMNOPQRSTUVWXYZabcdefghijklmnopqrstuvwxyz0123456789'')"

definition hex_upper :: "nat \<Rightarrow> char" where
  "hex_upper n = ''0123456789ABCDEF'' ! (n mod 16)"

definition hex_lower :: "nat \<Rightarrow> char" where
  "hex_lower n = ''0123456789abcdef'' ! (n mod 16)"

definition percent :: "char \<Rightarrow> string" where
  "percent c = [CHR ''%'', hex_upper (of_char c div 16), hex_upper (of_char c)]"

definition uri_unreserved :: "char \<Rightarrow> bool" where
  \<comment> \<open>the characters \<open>encodeURIComponent\<close> leaves alone\<close>
  "uri_unreserved c = (alnum c \<or> c \<in> set ''-_.!~*()'' \<or> c = CHR 0x27)"

definition encodeURIComponent :: "string \<Rightarrow> string" where
  "encodeURIComponent s = concat (map (\<lambda>c. if uri_unreserved c then [c] else percent c) s)"

definition form_byte :: "char \<Rightarrow> string" where
  \<comment> \<open>application/x-www-form-urlencoded byte serializer\<close>
  "form_byte c = (if c = CHR '' '' then ''+''
                  else if alnum c \<or> c \<in> set ''*-._'' then [c] else percent c)"

definition form_encode :: "string \<Rightarrow> string" where
  "form_encode s = concat (map form_byte s)"

fun join_amp :: "string list \<Rightarrow> string" where
  "join_amp [] = []"
| "join_amp [p] = p"
| "join_amp (p # ps) = p @ ''&'' @ join_amp ps"

definition URLSearchParams_toString :: "(string \<times> string) list \<Rightarrow> string" where
  "URLSearchParams_toString ps =
     join_amp (map (\<lambda>(k, v). form_encode k @ ''='' @ form_encode v) ps)"

record builtins =
  unicode_toLowerCase :: "string \<Rightarrow> string"
    \<comment> \<open>\<open>s.toLowerCase()\<close> for a string with a character beyond ASCII\<close>
  unicode_trim :: "string \<Rightarrow> string"
    \<comment> \<open>\<open>s.trim()\<close> for a string with a character beyond ASCII\<close>

definition is_ascii :: "string \<Rightarrow> bool" where
  "is_ascii s = list_all (\<lambda>c. (of_char c :: nat) < 128) s"

definition toLowerCase_char :: "char \<Rightarrow> char" where
  "toLowerCase_char c =
     (case map_of (zip ''ABCDEFGHIJKLMNOPQRSTUVWXYZ'' ''abcdefghijklmnopqrstuvwxyz'') c of
        None \<Rightarrow> c
      | Some l \<Rightarrow> l)"

definition toLowerCase :: "builtins \<Rightarrow> string \<Rightarrow> string" where
  "toLowerCase js s =
     (if is_ascii s then map toLowerCase_char s else unicode_toLowerCase js s)"

definition is_space :: "char \<Rightarrow> bool" where
  \<comment> \<open>the ASCII white space and line terminators removed by \<open>trim\<close>\<close>
  "is_space c = ((of_char c :: nat) \<in> {9, 10, 11, 12, 13, 32})"

definition trim :: "builtins \<Rightarrow> string \<Rightarrow> string" where
  "trim js s =
     (if is_ascii s then rev (dropWhile is_space (rev (dropWhile is_space s)))
      else unicode_trim js s)"

fun split_on :: "char \<Rightarrow> string \<Rightarrow> string list" where
  \<comment> \<open>\<open>s.split(c)\<close> for a one-character separator; \<open>''.split(c)\<close> is \<open>['']\<close>\<close>
  "split_on c [] = [[]]"
| "split_on c (x # xs) =
     (if x = c then [] # split_on c xs
      else (case split_on c xs of [] \<Rightarrow> [[x]] | w # ws \<Rightarrow> (x # w) # ws))"

fun index_opt :: "'a list \<Rightarrow> nat \<Rightarrow> 'a option" where
  \<comment> \<open>array indexing: out of range is \<open>undefined\<close>\<close>
  "index_opt [] n = None"
| "index_opt (x # xs) 0 = Some x"
| "index_opt (x # xs) (Suc n) = index_opt xs n"

definition toString_hex :: "string \<Rightarrow> string" where
  \<comment> \<open>\<open>buffer.toString('hex')\<close>: two lower-case hex digits per byte\<close>
  "toString_hex bs = concat (map (\<lambda>b. [hex_lower (of_char b div 16), hex_lower (of_char b)]) bs)"

section \<open>The Janua OAuth2 client (server/utils/janua-client.js)\<close>

record janua_client =
  januaUrl :: string
  clientId :: "string option"
  clientSecret :: "string option"
  redirectUri :: string

definition JanuaClient :: "env \<Rightarrow> janua_client" where
  \<comment> \<open>the constructor\<close>
  "JanuaClient e =
     \<lparr> januaUrl = or_default (e ''JANUA_URL'') ''https://auth.madfam.io'',
       clientId = e ''JANUA_CLIENT_ID'',
       clientSecret = e ''JANUA_CLIENT_SECRET'',
       redirectUri = or_default (e ''JANUA_REDIRECT_URI'') ''https://agents.madfam.io/auth/callback'' \<rparr>"

definition getAuthorizationUrl :: "janua_client \<Rightarrow> string \<Rightarrow> string" where
  "getAuthorizationUrl c state =
     januaUrl c @ ''/api/v1/oauth/authorize?'' @
     URLSearchParams_toString
       [(''client_id'', js_str (clientId c)),
        (''redirect_uri'', redirectUri c),
        (''response_type'', ''code''),
        (''scope'', ''openid profile email agent:view agent:control''),
        (''state'', state)]"

definition isConfigured :: "janua_client \<Rightarrow> bool" where
  "isConfigured c = (truthy (clientId c) \<and> truthy (clientSecret c))"

subsection \<open>The network\<close>

text \<open>
  The provider is outside the program. Every \<open>fetch\<close> is recorded as an \<open>http_call\<close> in the
  world's call log, and its outcome is read from a \<open>network\<close>, which says for each call whether
  \<open>fetch\<close> (or reading the body) throws, answers with a non-2xx status and a body text, or
  answers 2xx with a JSON body. The Basic credentials are kept as the pair they are built from.
  A 2xx body is taken to be a JSON object of the expected shape: a token response with
  optional string fields, a profile with a string \<open>sub\<close> (the OpenID Connect subject) and
  optional string \<open>email\<close> and \<open>name\<close>. The exceptions modelled are those of the provider
  calls; the store operations are total, so the \<open>catch\<close> clauses are reached through the
  provider calls and \<open>jwt.verify\<close> only.
\<close>

datatype http_call =
    PostToken string "string option" "string option" string string
      \<comment> \<open>url, client id, client secret, code, redirect uri\<close>
  | GetUserinfo string string
      \<comment> \<open>url, Authorization header value\<close>
  | PostRevoke string "string option" "string option" string
      \<comment> \<open>url, client id, client secret, token\<close>

datatype 'a fetch_result = Throws string | NotOk string | HttpOk 'a

record token_response =
  access_token :: "string option"
  id_token :: "string option"

record user_info =
  sub :: string
  email :: "string option"
  name :: "string option"

record network =
  token_endpoint :: "http_call \<Rightarrow> token_response fetch_result"
  userinfo_endpoint :: "http_call \<Rightarrow> user_info fetch_result"
  revoke_endpoint :: "http_call \<Rightarrow> unit fetch_result"

section \<open>The credential store\<close>

record user =
  user_id :: nat
  username :: string
  password_hash :: "string option"
  user_email :: "string option"
  display_name :: "string option"
  oauth_provider :: "string option"
  oauth_user_id :: "string option"
  last_login :: "nat option"

record user_extra =
  extra_email :: "string option"
  extra_name :: "string option"
  extra_oauth_provider :: string
  extra_oauth_user_id :: string

text \<open>
  Modelled from the spec: \<open>userDb\<close> of server/database/db.js, which is not among the sources.
  The Credential Store of the spec persists user records with a unique \<open>id\<close> and a unique
  \<open>username\<close>; it is a list of records here, a new record getting an id above every id in
  use. The operations are the five the two source files call.
\<close>

definition getUserByUsername :: "user list \<Rightarrow> string \<Rightarrow> user option" where
  \<comment> \<open>Modelled from the spec: \<open>userDb.getUserByUsername\<close>, the record with that username\<close>
  "getUserByUsername db u = find (\<lambda>x. username x = u) db"

definition getUserById :: "user list \<Rightarrow> nat \<Rightarrow> user option" where
  \<comment> \<open>Modelled from the spec: \<open>userDb.getUserById\<close>, the record with that id\<close>
  "getUserById db i = find (\<lambda>x. user_id x = i) db"

definition getFirstUser :: "user list \<Rightarrow> user option" where
  \<comment> \<open>Modelled from the spec: \<open>userDb.getFirstUser\<close>, the oldest record\<close>
  "getFirstUser db = (case db of [] \<Rightarrow> None | u # _ \<Rightarrow> Some u)"

definition next_id :: "user list \<Rightarrow> nat" where
  \<comment> \<open>Modelled from the spec: the id given to the next record, unused so far\<close>
  "next_id db = Suc (fold max (map user_id db) 0)"

definition createUser :: "user list \<Rightarrow> string \<Rightarrow> string option \<Rightarrow> user_extra \<Rightarrow> user list \<times> user" where
  \<comment> \<open>Modelled from the spec: \<open>userDb.createUser(username, passwordHash, extra)\<close>, which
      returns the new record\<close>
  "createUser db u pw x =
     (let new = \<lparr> user_id = next_id db, username = u, password_hash = pw,
                   user_email = extra_email x, display_name = extra_name x,
                   oauth_provider = Some (extra_oauth_provider x),
                   oauth_user_id = Some (extra_oauth_user_id x),
                   last_login = None \<rparr>
      in (db @ [new], new))"

definition updateLastLogin :: "user list \<Rightarrow> nat \<Rightarrow> nat \<Rightarrow> user list" where
  \<comment> \<open>Modelled from the spec: \<open>userDb.updateLastLogin(id)\<close>, which writes \<open>lastLoginAt\<close>\<close>
  "updateLastLogin db i now =
     map (\<lambda>x. if user_id x = i then x\<lparr>last_login := Some now\<rparr> else x) db"

section \<open>The world\<close>

record jwt_payload =
  userId :: nat
  payload_username :: string

record world =
  oauthStates :: "string \<rightharpoonup> nat"
    \<comment> \<open>the module-level Map of janua-auth.js: state token to \<open>expiresAt\<close>\<close>
  users :: "user list"
  calls :: "http_call list"
    \<comment> \<open>every fetch made so far, oldest first\<close>
  issued :: "jwt_payload list"
    \<comment> \<open>every payload signed by \<open>generateToken\<close> so far, oldest first\<close>

subsection \<open>Client methods that call the provider\<close>

definition exchangeCodeForToken ::
  "janua_client \<Rightarrow> network \<Rightarrow> string \<Rightarrow> world \<Rightarrow> (string + token_response) \<times> world" where
  "exchangeCodeForToken c net code w =
     (let call = PostToken (januaUrl c @ ''/api/v1/oauth/token'') (clientId c) (clientSecret c)
                   code (redirectUri c);
          w' = w\<lparr>calls := calls w @ [call]\<rparr>
      in case token_endpoint net call of
           Throws m \<Rightarrow> (Inl m, w')
         | NotOk body \<Rightarrow> (Inl (''Token exchange failed: '' @ body), w')
         | HttpOk j \<Rightarrow> (Inr j, w'))"

definition getUserInfo ::
  "janua_client \<Rightarrow> network \<Rightarrow> string option \<Rightarrow> world \<Rightarrow> (string + user_info) \<times> world" where
  "getUserInfo c net accessToken w =
     (let call = GetUserinfo (januaUrl c @ ''/api/v1/oauth/userinfo'')
                   (''Bearer '' @ js_str accessToken);
          w' = w\<lparr>calls := calls w @ [call]\<rparr>
      in case userinfo_endpoint net call of
           Throws m \<Rightarrow> (Inl m, w')
         | NotOk body \<Rightarrow> (Inl (''Failed to get user info: '' @ body), w')
         | HttpOk j \<Rightarrow> (Inr j, w'))"

definition revokeToken ::
  "janua_client \<Rightarrow> network \<Rightarrow> string \<Rightarrow> world \<Rightarrow> (string + unit) \<times> world" where
  \<comment> \<open>the response status is not looked at: only a throwing fetch fails\<close>
  "revokeToken c net token w =
     (let call = PostRevoke (januaUrl c @ ''/api/v1/oauth/revoke'') (clientId c) (clientSecret c)
                   token;
          w' = w\<lparr>calls := calls w @ [call]\<rparr>
      in case revoke_endpoint net call of
           Throws m \<Rightarrow> (Inl m, w')
         | NotOk body \<Rightarrow> (Inr (), w')
         | HttpOk j \<Rightarrow> (Inr (), w'))"

section \<open>Session tokens and the authentication middleware (server/middleware/auth.js)\<close>

text \<open>
  The \<open>jsonwebtoken\<close> library is a parameter: \<open>jwt_sign payload secret expiresIn\<close> is
  \<open>Inr\<close> the token, or \<open>Inl\<close> the message of the error \<open>jwt.sign\<close> throws (for an
  \<open>expiresIn\<close> that is no time span, for instance), and \<open>jwt_verify token secret\<close> is the decoded payload, or \<open>None\<close> where
  \<open>jwt.verify\<close> throws (bad signature, expired, malformed).
\<close>

record jwt_lib =
  jwt_sign :: "jwt_payload \<Rightarrow> string option \<Rightarrow> string \<Rightarrow> string + string"
  jwt_verify :: "string \<Rightarrow> string option \<Rightarrow> jwt_payload option"

datatype json_value = JStr string | JBool bool

datatype response =
    Redirect string
  | JsonResp nat "(string \<times> json_value) list"
      \<comment> \<open>HTTP status and the fields of the JSON body\<close>

datatype mw_result = Respond response | Next user
  \<comment> \<open>the middleware answers itself, or calls \<open>next()\<close> with \<open>req.user\<close> set\<close>

definition NODE_ENV :: "env \<Rightarrow> string" where
  "NODE_ENV e = or_default (e ''NODE_ENV'') ''development''"

definition JWT_EXPIRATION :: "env \<Rightarrow> string" where
  "JWT_EXPIRATION e = or_default (e ''JWT_EXPIRATION'') ''8h''"

definition JWT_SECRET :: "env \<Rightarrow> string option" where
  "JWT_SECRET e =
     js_or (e ''JWT_SECRET'')
       (if NODE_ENV e = ''production'' then None
        else Some ''claude-ui-dev-secret-change-in-production'')"

definition bearer :: "string option \<Rightarrow> string option" where
  \<comment> \<open>\<open>authHeader && authHeader.split(' ')[1]\<close>\<close>
  "bearer authHeader =
     (if truthy authHeader
      then (case authHeader of None \<Rightarrow> None | Some h \<Rightarrow> index_opt (split_on CHR '' '' h) 1)
      else authHeader)"

definition authenticateToken ::
  "env \<Rightarrow> jwt_lib \<Rightarrow> user list \<Rightarrow> (string \<Rightarrow> string option) \<Rightarrow> mw_result" where
  "authenticateToken e jwt db headers =
     (if e ''VITE_IS_PLATFORM'' = Some ''true'' then
        (if NODE_ENV e = ''production'' \<and> e ''ALLOW_PLATFORM_MODE'' \<noteq> Some ''true''
         then Respond (JsonResp 403 [(''error'', JStr
           ''Platform mode is disabled in production. Set ALLOW_PLATFORM_MODE=true to enable.'')])
         else (case getFirstUser db of
                 None \<Rightarrow> Respond (JsonResp 500
                           [(''error'', JStr ''Platform mode: No user found in database'')])
               | Some user \<Rightarrow> Next user))
      else
        (let token = bearer (headers ''authorization'') in
         if \<not> truthy token
         then Respond (JsonResp 401 [(''error'', JStr ''Access denied. No token provided.'')])
         else (case token of
                 None \<Rightarrow> Respond (JsonResp 401
                           [(''error'', JStr ''Access denied. No token provided.'')])
               | Some t \<Rightarrow>
                  (case jwt_verify jwt t (JWT_SECRET e) of
                     None \<Rightarrow> Respond (JsonResp 403 [(''error'', JStr ''Invalid token'')])
                   | Some decoded \<Rightarrow>
                      (case getUserById db (userId decoded) of
                         None \<Rightarrow> Respond (JsonResp 401
                                   [(''error'', JStr ''Invalid token. User not found.'')])
                       | Some user \<Rightarrow> Next user)))))"

definition generateToken ::
  "env \<Rightarrow> jwt_lib \<Rightarrow> user \<Rightarrow> world \<Rightarrow> (string + string) \<times> world" where
  \<comment> \<open>\<open>Inl\<close> the message when \<open>jwt.sign\<close> throws; a token signed is logged in \<open>issued\<close>\<close>
  "generateToken e jwt u w =
     (let payload = \<lparr> userId = user_id u, payload_username = username u \<rparr>
      in case jwt_sign jwt payload (JWT_SECRET e) (JWT_EXPIRATION e) of
           Inl msg \<Rightarrow> (Inl msg, w)
         | Inr token \<Rightarrow> (Inr token, w\<lparr>issued := issued w @ [payload]\<rparr>))"

section \<open>The OAuth2 routes (server/routes/janua-auth.js)\<close>

record query =
  code :: "string option"
  state :: "string option"
  error :: "string option"
  error_description :: "string option"

definition login :: "janua_client \<Rightarrow> string \<Rightarrow> nat \<Rightarrow> world \<Rightarrow> response \<times> world" where
  \<comment> \<open>\<open>GET /login\<close>; \<open>randomBytes\<close> is the value of \<open>crypto.randomBytes(32)\<close>, \<open>now\<close> of \<open>Date.now()\<close>\<close>
  "login c randomBytes now w =
     (if \<not> isConfigured c
      then (JsonResp 500
              [(''error'', JStr ''Janua OAuth2 not configured''),
               (''hint'', JStr
                  ''Set JANUA_CLIENT_ID and JANUA_CLIENT_SECRET environment variables'')], w)
      else
        (let st = toString_hex randomBytes;
             expiresAt = now + 10 * 60 * 1000;
             w' = w\<lparr>oauthStates := (oauthStates w)(st \<mapsto> expiresAt)\<rparr>
         in (Redirect (getAuthorizationUrl c st), w')))"

definition allowedEmails :: "builtins \<Rightarrow> env \<Rightarrow> string list" where
  "allowedEmails js e =
     map (\<lambda>a. toLowerCase js (trim js a))
       (split_on CHR '','' (or_default (e ''JANUA_ALLOWED_EMAILS'') ''admin@madfam.io''))"

definition createOrUpdateUser :: "user_info \<Rightarrow> nat \<Rightarrow> user list \<Rightarrow> user \<times> user list" where
  \<comment> \<open>lines 97 to 113 of the callback: look the subject up as username, create or touch\<close>
  "createOrUpdateUser userInfo now db =
     (case getUserByUsername db (sub userInfo) of
        None \<Rightarrow>
          (let (db', u) = createUser db (sub userInfo) None
                            \<lparr> extra_email = email userInfo, extra_name = name userInfo,
                              extra_oauth_provider = ''janua'',
                              extra_oauth_user_id = sub userInfo \<rparr>
           in (u, db'))
      | Some u \<Rightarrow> (u, updateLastLogin db (user_id u) now))"

definition callback_catch :: "string \<Rightarrow> response" where
  \<comment> \<open>the catch clause: \<open>msg\<close> is \<open>error.message\<close>\<close>
  "callback_catch msg = Redirect (''/?error='' @ encodeURIComponent msg)"

definition callback_accept ::
  "env \<Rightarrow> jwt_lib \<Rightarrow> nat \<Rightarrow> user_info \<Rightarrow> world \<Rightarrow> response \<times> world" where
  \<comment> \<open>the try block from line 95 on, once the email has passed the allow-list\<close>
  "callback_accept e jwt now userInfo w2 =
     (let (u, db') = createOrUpdateUser userInfo now (users w2);
          w3 = w2\<lparr>users := db'\<rparr>
      in case generateToken e jwt u w3 of
           (Inl msg, w4) \<Rightarrow> (callback_catch msg, w4)
         | (Inr sessionToken, w4) \<Rightarrow>
             (Redirect (''/?token='' @ sessionToken @ ''&oauth=janua''), w4))"

definition callback_try ::
  "builtins \<Rightarrow> env \<Rightarrow> janua_client \<Rightarrow> network \<Rightarrow> jwt_lib \<Rightarrow> nat \<Rightarrow> string \<Rightarrow> world
     \<Rightarrow> response \<times> world" where
  \<comment> \<open>the try block of the callback, entered once the state has been checked and deleted\<close>
  "callback_try js e c net jwt now cd w =
     (case exchangeCodeForToken c net cd w of
        (Inl msg, w1) \<Rightarrow> (callback_catch msg, w1)
      | (Inr tokenResponse, w1) \<Rightarrow>
         (case getUserInfo c net (access_token tokenResponse) w1 of
            (Inl msg, w2) \<Rightarrow> (callback_catch msg, w2)
          | (Inr userInfo, w2) \<Rightarrow>
             (let userEmail = toLowerCase js (or_default (email userInfo) [])
              in if userEmail \<notin> set (allowedEmails js e)
                 then (Redirect (''/?error='' @ encodeURIComponent
                         ''Access denied. Your email is not authorized to use this application.''),
                       w2)
                 else callback_accept e jwt now userInfo w2)))"

definition callback ::
  "builtins \<Rightarrow> env \<Rightarrow> janua_client \<Rightarrow> network \<Rightarrow> jwt_lib \<Rightarrow> nat \<Rightarrow> query \<Rightarrow> world \<Rightarrow> response \<times> world" where
  \<comment> \<open>\<open>GET /callback\<close>; \<open>now\<close> is the value of \<open>Date.now()\<close>\<close>
  "callback js e c net jwt now q w =
     (if truthy (error q)
      then (Redirect (''/?error='' @
              encodeURIComponent (js_str (js_or (error_description q) (error q)))), w)
      else if \<not> truthy (code q) \<or> \<not> truthy (state q)
      then (Redirect ''/?error=missing_parameters'', w)
      else
        (case (code q, state q) of
           (Some cd, Some st) \<Rightarrow>
             (case oauthStates w st of
                None \<Rightarrow> (Redirect ''/?error=invalid_state'', w)
              | Some expiresAt \<Rightarrow>
                 if now > expiresAt
                 then (Redirect ''/?error=state_expired'',
                       w\<lparr>oauthStates := (oauthStates w)(st := None)\<rparr>)
                 else callback_try js e c net jwt now cd
                        (w\<lparr>oauthStates := (oauthStates w)(st := None)\<rparr>))
         | _ \<Rightarrow> (Redirect ''/?error=missing_parameters'', w)))"

definition logout ::
  "janua_client \<Rightarrow> network \<Rightarrow> (string \<Rightarrow> string option) \<Rightarrow> world \<Rightarrow> response \<times> world" where
  \<comment> \<open>\<open>POST /logout\<close>\<close>
  "logout c net headers w =
     (let token = bearer (headers ''authorization'');
          w' = (case token of
                  None \<Rightarrow> w
                | Some t \<Rightarrow>
                    if truthy token \<and> isConfigured c
                    then (case revokeToken c net t w of
                            (Inl msg, w1) \<Rightarrow> w1
                          | (Inr _, w1) \<Rightarrow> w1)
                    else w)
      in (JsonResp 200 [(''success'', JBool True),
                        (''message'', JStr ''Logged out successfully'')], w'))"

definition status :: "janua_client \<Rightarrow> response" where
  \<comment> \<open>\<open>GET /status\<close>\<close>
  "status c =
     JsonResp 200 [(''oauth_enabled'', JBool (isConfigured c)),
                   (''oauth_provider'', JStr ''janua''),
                   (''janua_url'', JStr (januaUrl c))]"

section \<open>Observations on a callback\<close>

text \<open>
  \<open>callback_profile\<close> is the profile a callback obtains, with the world at that point: it
  is \<open>Some\<close> exactly when the request carries no \<open>error\<close> parameter, carries a code and a
  state, the state is in the store and unexpired, and both the code exchange and the profile
  fetch succeed. It follows the callback up to the allow-list check and is used to state
  what happens from there on.
\<close>

definition callback_profile ::
  "janua_client \<Rightarrow> network \<Rightarrow> nat \<Rightarrow> query \<Rightarrow> world \<Rightarrow> (user_info \<times> world) option" where
  "callback_profile c net now q w =
     (if truthy (error q) then None
      else (case (code q, state q) of
              (Some cd, Some st) \<Rightarrow>
                if cd = [] \<or> st = [] then None
                else (case oauthStates w st of
                        None \<Rightarrow> None
                      | Some expiresAt \<Rightarrow>
                          if now > expiresAt then None
                          else (case exchangeCodeForToken c net cd
                                       (w\<lparr>oauthStates := (oauthStates w)(st := None)\<rparr>) of
                                  (Inl msg, w1) \<Rightarrow> None
                                | (Inr tokenResponse, w1) \<Rightarrow>
                                   (case getUserInfo c net (access_token tokenResponse) w1 of
                                      (Inl msg, w2) \<Rightarrow> None
                                    | (Inr userInfo, w2) \<Rightarrow> Some (userInfo, w2))))
            | _ \<Rightarrow> None))"

definition session_payload :: "user \<Rightarrow> jwt_payload" where
  \<comment> \<open>the payload \<open>generateToken\<close> signs for a user\<close>
  "session_payload u = \<lparr> userId = user_id u, payload_username = username u \<rparr>"

definition session_redirect :: "env \<Rightarrow> jwt_lib \<Rightarrow> user \<Rightarrow> response" where
  \<comment> \<open>the answer to an accepted callback whose account is \<open>u\<close> (lines 115 to 125): the
      redirect with the session token, or the redirect of the catch clause when
      \<open>jwt.sign\<close> throws\<close>
  "session_redirect e jwt u =
     (case jwt_sign jwt (session_payload u) (JWT_SECRET e) (JWT_EXPIRATION e) of
        Inl msg \<Rightarrow> callback_catch msg
      | Inr sessionToken \<Rightarrow> Redirect (''/?token='' @ sessionToken @ ''&oauth=janua''))"

definition session_issued :: "env \<Rightarrow> jwt_lib \<Rightarrow> user \<Rightarrow> jwt_payload list" where
  \<comment> \<open>what that callback adds to the tokens issued: the payload, unless \<open>jwt.sign\<close> throws\<close>
  "session_issued e jwt u =
     (case jwt_sign jwt (session_payload u) (JWT_SECRET e) (JWT_EXPIRATION e) of
        Inl msg \<Rightarrow> []
      | Inr sessionToken \<Rightarrow> [session_payload u])"

definition id_name :: "user \<Rightarrow> nat \<times> string" where
  "id_name u = (user_id u, username u)"

text \<open>
  \<open>state_accepted\<close> says that a request gets past the parameter and state checks of the
  callback; \<open>token_call\<close> and \<open>userinfo_call\<close> are the requests the client then sends.
\<close>

definition state_accepted :: "nat \<Rightarrow> query \<Rightarrow> world \<Rightarrow> bool" where
  "state_accepted now q w =
     (\<not> truthy (error q) \<and> truthy (code q) \<and>
      (case state q of
         None \<Rightarrow> False
       | Some st \<Rightarrow> st \<noteq> [] \<and>
           (case oauthStates w st of None \<Rightarrow> False | Some expiresAt \<Rightarrow> \<not> now > expiresAt)))"

definition token_call :: "janua_client \<Rightarrow> string \<Rightarrow> http_call" where
  "token_call c cd =
     PostToken (januaUrl c @ ''/api/v1/oauth/token'') (clientId c) (clientSecret c) cd
       (redirectUri c)"

definition userinfo_call :: "janua_client \<Rightarrow> string option \<Rightarrow> http_call" where
  "userinfo_call c accessToken =
     GetUserinfo (januaUrl c @ ''/api/v1/oauth/userinfo'') (''Bearer '' @ js_str accessToken)"

section \<open>Concrete inputs\<close>

definition net_janua :: network where
  \<comment> \<open>a provider that answers: the access token names the code, the profile depends on it\<close>
  "net_janua =
     \<lparr> token_endpoint =
         (\<lambda>call. case call of
                    PostToken url cid sec cd ru \<Rightarrow>
                      HttpOk \<lparr> access_token = Some (''at-'' @ cd), id_token = None \<rparr>
                  | _ \<Rightarrow> NotOk ''invalid_request''),
       userinfo_endpoint =
         (\<lambda>call. case call of
                    GetUserinfo url auth \<Rightarrow>
                      if auth = ''Bearer at-c1''
                      then HttpOk \<lparr> sub = ''s1'', email = Some ''Admin@MadFam.io'',
                                    name = Some ''Ann'' \<rparr>
                      else if auth = ''Bearer at-c2''
                      then HttpOk \<lparr> sub = ''s2'', email = Some ''Admin@MadFam.io'',
                                    name = Some ''Bob'' \<rparr>
                      else if auth = ''Bearer at-c3''
                      then HttpOk \<lparr> sub = ''s3'', email = None, name = None \<rparr>
                      else if auth = ''Bearer at-c4''
                      then HttpOk \<lparr> sub = ''s4'', email = Some ''eve@example.com'',
                                    name = Some ''Eve'' \<rparr>
                      else NotOk ''invalid_token''
                  | _ \<Rightarrow> NotOk ''invalid_request''),
       revoke_endpoint = (\<lambda>_. HttpOk ()) \<rparr>"

definition net_invalid_grant :: network where
  \<comment> \<open>the token endpoint answers 400 with the body \<open>invalid_grant\<close>\<close>
  "net_invalid_grant =
     \<lparr> token_endpoint = (\<lambda>_. NotOk ''invalid_grant''),
       userinfo_endpoint = (\<lambda>_. NotOk ''invalid_token''),
       revoke_endpoint = (\<lambda>_. HttpOk ()) \<rparr>"

definition world_pending :: world where
  \<comment> \<open>two logins under way, both expiring at 10000; no users yet\<close>
  "world_pending =
     \<lparr> oauthStates = [''st1'' \<mapsto> 10000, ''st2'' \<mapsto> 10000],
       users = [], calls = [], issued = [] \<rparr>"

definition env_trailing_comma :: env where
  \<comment> \<open>an allow-list with blanks around an entry and a trailing comma, hence an empty entry\<close>
  "env_trailing_comma =
     (\<lambda>k. if k = ''JANUA_ALLOWED_EMAILS'' then Some '' Admin@MADFAM.io ,dev@madfam.io,''
          else None)"

definition env_platform :: env where
  "env_platform = (\<lambda>k. if k = ''VITE_IS_PLATFORM'' then Some ''true'' else None)"

definition user_local :: user where
  "user_local =
     \<lparr> user_id = 1, username = ''admin'', password_hash = Some ''hash'', user_email = None,
       display_name = None, oauth_provider = None, oauth_user_id = None, last_login = None \<rparr>"

definition env_configured :: env where
  "env_configured =
     (\<lambda>k. if k = ''JANUA_CLIENT_ID'' then Some ''cid''
          else if k = ''JANUA_CLIENT_SECRET'' then Some ''sec'' else None)"

definition env_unset :: env where
  "env_unset = (\<lambda>k. None)"

definition world_empty :: world where
  "world_empty = \<lparr> oauthStates = Map.empty, users = [], calls = [], issued = [] \<rparr>"

definition net_down :: network where
  \<comment> \<open>every fetch throws\<close>
  "net_down =
     \<lparr> token_endpoint = (\<lambda>_. Throws ''ECONNREFUSED''),
       userinfo_endpoint = (\<lambda>_. Throws ''ECONNREFUSED''),
       revoke_endpoint = (\<lambda>_. Throws ''ECONNREFUSED'') \<rparr>"

definition headers_bearer :: "string \<Rightarrow> string \<Rightarrow> string option" where
  "headers_bearer t = (\<lambda>k. if k = ''authorization'' then Some (''Bearer '' @ t) else None)"

definition query_ok :: "string \<Rightarrow> string \<Rightarrow> query" where
  "query_ok st cd = \<lparr> code = Some cd, state = Some st, error = None, error_description = None \<rparr>"

definition jwt_example :: jwt_lib where
  "jwt_example =
     \<lparr> jwt_sign = (\<lambda>p s x. if x = ''8h'' then Inr (''jwt.'' @ payload_username p)
                            else Inl ''expiresIn should be a number of seconds or a timespan''),
       jwt_verify = (\<lambda>t s. if t = ''good'' then Some \<lparr> userId = 7, payload_username = ''s1'' \<rparr>
                            else None) \<rparr>"

definition builtins_example :: builtins where
  \<comment> \<open>stands for the built-ins beyond ASCII; the strings below are ASCII\<close>
  "builtins_example = \<lparr> unicode_toLowerCase = (\<lambda>s. s), unicode_trim = (\<lambda>s. s) \<rparr>"

definition env_bad_expiration :: env where
  "env_bad_expiration = (\<lambda>k. if k = ''JWT_EXPIRATION'' then Some ''abc'' else None)"

definition client_example :: janua_client where
  "client_example = JanuaClient env_configured"

definition world_after_ann :: world where
  \<comment> \<open>the world after the callback of subject \<open>s1\<close> has been accepted\<close>
  "world_after_ann = snd (callback builtins_example env_unset client_example net_janua jwt_example 5000
                            (query_ok ''st1'' ''c1'') world_pending)"

section \<open>Basic facts about the callback\<close>

lemma callback_try_oauthStates:
  "oauthStates (snd (callback_try js e c net jwt now cd w)) = oauthStates w"
  by (simp add: callback_try_def callback_accept_def exchangeCodeForToken_def getUserInfo_def
      generateToken_def Let_def split: fetch_result.splits prod.splits sum.splits)

lemma callback_try_calls:
  "\<exists>rest. calls (snd (callback_try js e c net jwt now cd w)) =
     calls w @ PostToken (januaUrl c @ ''/api/v1/oauth/token'') (clientId c) (clientSecret c)
                 cd (redirectUri c) # rest"
  by (simp add: callback_try_def callback_accept_def exchangeCodeForToken_def getUserInfo_def
      generateToken_def Let_def split: fetch_result.splits prod.splits sum.splits)

lemma toString_hex_nonempty: "bs \<noteq> [] \<Longrightarrow> toString_hex bs \<noteq> []"
  by (cases bs) (simp_all add: toString_hex_def)

lemma callback_unknown_state:
  assumes "state q = Some tok" "oauthStates w tok = None"
  shows "callback js e c net jwt now q w =
     ((if truthy (error q)
       then Redirect (''/?error='' @
              encodeURIComponent (js_str (js_or (error_description q) (error q))))
       else if \<not> truthy (code q) \<or> tok = [] then Redirect ''/?error=missing_parameters''
       else Redirect ''/?error=invalid_state''), w)"
  using assms by (auto simp: callback_def truthy_def split: option.splits)

lemma callback_expired_state:
  assumes "state q = Some tok" "oauthStates w tok = Some expiresAt" "expiresAt < now"
  shows "fst (callback js e c net jwt now q w) =
     (if truthy (error q)
       then Redirect (''/?error='' @
              encodeURIComponent (js_str (js_or (error_description q) (error q))))
       else if \<not> truthy (code q) \<or> tok = [] then Redirect ''/?error=missing_parameters''
       else Redirect ''/?error=state_expired'')"
   and "calls (snd (callback js e c net jwt now q w)) = calls w"
   and "users (snd (callback js e c net jwt now q w)) = users w"
   and "issued (snd (callback js e c net jwt now q w)) = issued w"
  using assms by (auto simp: callback_def truthy_def split: option.splits)

lemma callback_valid_state:
  assumes "state q = Some tok" "tok \<noteq> []" "code q = Some cd" "cd \<noteq> []" "\<not> truthy (error q)"
    "oauthStates w tok = Some expiresAt" "now \<le> expiresAt"
  shows "callback js e c net jwt now q w =
           callback_try js e c net jwt now cd (w\<lparr>oauthStates := (oauthStates w)(tok := None)\<rparr>)"
  using assms by (auto simp: callback_def truthy_def split: option.splits)

lemma login_issues:
  assumes "isConfigured c"
  shows "login c randomBytes t0 w0 =
     (Redirect (getAuthorizationUrl c (toString_hex randomBytes)),
      w0\<lparr>oauthStates := (oauthStates w0)(toString_hex randomBytes \<mapsto> t0 + 600000)\<rparr>)"
  using assms by (simp add: login_def Let_def)

lemma hex_example:
  "toString_hex ''0123456789abcdef0123456789abcdef'' =
     ''3031323334353637383961626364656630313233343536373839616263646566''"
  by (simp add: toString_hex_def hex_lower_def)

lemma denied_url:
  "encodeURIComponent ''Access denied. Your email is not authorized to use this application.'' =
   ''Access%20denied.%20Your%20email%20is%20not%20authorized%20to%20use%20this%20application.''"
  by (simp add: encodeURIComponent_def uri_unreserved_def alnum_def percent_def hex_upper_def)

lemma callback_profile_world:
  assumes "callback_profile c net now q w = Some (userInfo, w2)"
  shows "users w2 = users w" and "issued w2 = issued w"
  using assms
  by (auto simp: callback_profile_def exchangeCodeForToken_def getUserInfo_def Let_def
      split: if_splits option.splits fetch_result.splits prod.splits sum.splits)

lemma callback_with_profile:
  assumes "callback_profile c net now q w = Some (userInfo, w2)"
  shows "callback js e c net jwt now q w =
     (if toLowerCase js (or_default (email userInfo) []) \<notin> set (allowedEmails js e)
      then (Redirect
        ''/?error=Access%20denied.%20Your%20email%20is%20not%20authorized%20to%20use%20this%20application.'',
        w2)
      else callback_accept e jwt now userInfo w2)"
  using assms
  by (auto simp: callback_profile_def callback_def callback_try_def truthy_def denied_url
      exchangeCodeForToken_def getUserInfo_def Let_def
      split: if_splits option.splits fetch_result.splits prod.splits sum.splits)

lemma callback_accept_result:
  "callback_accept e jwt now userInfo w2 =
     (session_redirect e jwt (fst (createOrUpdateUser userInfo now (users w2))),
      w2\<lparr>users := snd (createOrUpdateUser userInfo now (users w2)),
          issued := issued w2 @
            session_issued e jwt (fst (createOrUpdateUser userInfo now (users w2)))\<rparr>)"
  by (simp add: callback_accept_def generateToken_def session_redirect_def session_issued_def
      session_payload_def Let_def split: prod.splits sum.splits)

lemma allowed_default: "allowedEmails builtins_example env_unset = [''admin@madfam.io'']"
  by (simp add: allowedEmails_def env_unset_def or_default_def trim_def is_space_def
      toLowerCase_def toLowerCase_char_def is_ascii_def)

lemma allowed_trailing_comma:
  "allowedEmails builtins_example env_trailing_comma =
     [''admin@madfam.io'', ''dev@madfam.io'', []]"
  by (simp add: allowedEmails_def env_trailing_comma_def or_default_def trim_def is_space_def
      toLowerCase_def toLowerCase_char_def is_ascii_def)

lemma profile_eve:
  "callback_profile (JanuaClient env_configured) net_janua 5000 (query_ok ''st1'' ''c4'')
     world_pending =
   Some (\<lparr> sub = ''s4'', email = Some ''eve@example.com'', name = Some ''Eve'' \<rparr>,
         \<lparr> oauthStates = [''st2'' \<mapsto> 10000], users = [],
           calls = [PostToken ''https://auth.madfam.io/api/v1/oauth/token'' (Some ''cid'')
                      (Some ''sec'') ''c4'' ''https://agents.madfam.io/auth/callback'',
                    GetUserinfo ''https://auth.madfam.io/api/v1/oauth/userinfo''
                      ''Bearer at-c4''],
           issued = [] \<rparr>)"
  by (auto simp add: callback_profile_def query_ok_def world_pending_def truthy_def
      exchangeCodeForToken_def getUserInfo_def net_janua_def JanuaClient_def
      env_configured_def or_default_def js_str_def Let_def)

lemma fold_max_ge: "(a::nat) \<le> fold max xs a"
  by (induction xs arbitrary: a) (auto intro: order_trans [OF max.cobounded2])

lemma fold_max_mem: "x \<in> set xs \<Longrightarrow> (x::nat) \<le> fold max xs a"
proof (induction xs arbitrary: a)
  case Nil then show ?case by simp
next
  case (Cons y ys)
  show ?case
  proof (cases "x = y")
    case True
    have "y \<le> max y a" by simp
    also have "\<dots> \<le> fold max ys (max y a)" by (rule fold_max_ge)
    finally show ?thesis using True by simp
  next
    case False
    then have "x \<in> set ys" using Cons.prems by simp
    then show ?thesis using Cons.IH by simp
  qed
qed

lemma next_id_fresh: "next_id db \<notin> set (map user_id db)"
proof
  assume "next_id db \<in> set (map user_id db)"
  then have "next_id db \<le> fold max (map user_id db) 0" by (rule fold_max_mem)
  then show False by (simp add: next_id_def)
qed

lemma updateLastLogin_ids: "map id_name (updateLastLogin db i now) = map id_name db"
  by (induction db) (auto simp: updateLastLogin_def id_name_def)

lemma updateLastLogin_id_set: "id_name ` set (updateLastLogin db i now) = id_name ` set db"
  using arg_cong [OF updateLastLogin_ids, of set db i now] by simp

lemma getUserByUsername_Some:
  "getUserByUsername db s = Some u \<Longrightarrow> u \<in> set db \<and> username u = s"
  by (auto simp: getUserByUsername_def find_Some_iff)

lemma createOrUpdateUser_cases:
  "(case getUserByUsername db (sub userInfo) of
      Some u \<Rightarrow> createOrUpdateUser userInfo now db = (u, updateLastLogin db (user_id u) now)
    | None \<Rightarrow>
        createOrUpdateUser userInfo now db =
          (\<lparr> user_id = next_id db, username = sub userInfo, password_hash = None,
             user_email = email userInfo, display_name = name userInfo,
             oauth_provider = Some ''janua'', oauth_user_id = Some (sub userInfo),
             last_login = None \<rparr>,
           db @ [\<lparr> user_id = next_id db, username = sub userInfo, password_hash = None,
             user_email = email userInfo, display_name = name userInfo,
             oauth_provider = Some ''janua'', oauth_user_id = Some (sub userInfo),
             last_login = None \<rparr>]))"
  by (simp add: createOrUpdateUser_def createUser_def Let_def split: option.splits)

lemma createOrUpdateUser_username:
  "username (fst (createOrUpdateUser userInfo now db)) = sub userInfo"
  using createOrUpdateUser_cases [where db=db and userInfo=userInfo and now=now]
  by (auto split: option.splits dest: getUserByUsername_Some)

lemma createOrUpdateUser_member:
  "id_name (fst (createOrUpdateUser userInfo now db)) \<in>
     set (map id_name (snd (createOrUpdateUser userInfo now db)))"
  using createOrUpdateUser_cases [where db=db and userInfo=userInfo and now=now]
  by (auto simp: updateLastLogin_id_set split: option.splits dest: getUserByUsername_Some)

lemma createOrUpdateUser_keeps:
  "set (map id_name db) \<subseteq> set (map id_name (snd (createOrUpdateUser userInfo now db)))"
  using createOrUpdateUser_cases [where db=db and userInfo=userInfo and now=now]
  by (auto simp: updateLastLogin_id_set split: option.splits)

lemma map_fst_id_name: "map fst (map id_name db) = map user_id db"
  by (simp add: id_name_def comp_def)

lemma createOrUpdateUser_distinct:
  assumes "distinct (map user_id db)"
  shows "distinct (map user_id (snd (createOrUpdateUser userInfo now db)))"
proof (cases "getUserByUsername db (sub userInfo)")
  case None
  then show ?thesis
    using createOrUpdateUser_cases [where db=db and userInfo=userInfo and now=now] assms next_id_fresh [of db]
    by simp
next
  case (Some u)
  then have "map id_name (snd (createOrUpdateUser userInfo now db)) = map id_name db"
    using createOrUpdateUser_cases [where db=db and userInfo=userInfo and now=now] by (simp add: updateLastLogin_ids)
  then have "map fst (map id_name (snd (createOrUpdateUser userInfo now db))) =
             map fst (map id_name db)" by simp
  then show ?thesis using assms by (simp only: map_fst_id_name)
qed

lemma distinct_subjects_distinct_ids:
  assumes "distinct (map user_id db)" and "sub ui1 \<noteq> sub ui2"
  shows "user_id (fst (createOrUpdateUser ui1 t1 db)) \<noteq>
         user_id (fst (createOrUpdateUser ui2 t2 (snd (createOrUpdateUser ui1 t1 db))))"
proof
  let ?db1 = "snd (createOrUpdateUser ui1 t1 db)"
  let ?u1 = "fst (createOrUpdateUser ui1 t1 db)"
  let ?db2 = "snd (createOrUpdateUser ui2 t2 ?db1)"
  let ?u2 = "fst (createOrUpdateUser ui2 t2 ?db1)"
  assume eq: "user_id ?u1 = user_id ?u2"
  have d: "distinct (map fst (map id_name ?db2))"
    using createOrUpdateUser_distinct [OF createOrUpdateUser_distinct [OF assms(1)]]
    by (simp only: map_fst_id_name)
  have m1: "id_name ?u1 \<in> set (map id_name ?db2)"
    using createOrUpdateUser_member [of ui1 t1 db] createOrUpdateUser_keeps [of ?db1 ui2 t2]
    by blast
  have m2: "id_name ?u2 \<in> set (map id_name ?db2)"
    by (rule createOrUpdateUser_member)
  have "(user_id ?u1, username ?u1) \<in> set (map id_name ?db2)"
    using m1 by (simp add: id_name_def)
  moreover have "(user_id ?u1, username ?u2) \<in> set (map id_name ?db2)"
    using m2 eq by (simp add: id_name_def)
  ultimately have "username ?u1 = username ?u2"
    using d by (rule_tac eq_key_imp_eq_value)
  then show False using assms(2) by (simp add: createOrUpdateUser_username)
qed


lemma callback_accepts:
  assumes "callback_profile c net now q w = Some (userInfo, w2)"
    and "toLowerCase js (or_default (email userInfo) []) \<in> set (allowedEmails js e)"
  shows "fst (callback js e c net jwt now q w) =
           session_redirect e jwt (fst (createOrUpdateUser userInfo now (users w)))"
    and "users (snd (callback js e c net jwt now q w)) =
           snd (createOrUpdateUser userInfo now (users w))"
    and "issued (snd (callback js e c net jwt now q w)) =
           issued w @ session_issued e jwt (fst (createOrUpdateUser userInfo now (users w)))"
  using callback_with_profile [OF assms(1), of js e jwt] assms(2)
    callback_profile_world [OF assms(1)]
  by (simp_all add: callback_accept_result)

lemma session_issued_cases:
  "session_issued e jwt u = [] \<or> session_issued e jwt u = [session_payload u]"
  by (simp add: session_issued_def split: sum.splits)

lemmas eval_defs = callback_profile_def callback_def callback_try_def callback_catch_def
  query_ok_def world_pending_def truthy_def exchangeCodeForToken_def getUserInfo_def
  net_janua_def client_example_def JanuaClient_def env_configured_def or_default_def js_str_def
  createOrUpdateUser_def getUserByUsername_def createUser_def next_id_def updateLastLogin_def
  generateToken_def jwt_example_def JWT_SECRET_def JWT_EXPIRATION_def NODE_ENV_def js_or_def
  env_unset_def toLowerCase_def toLowerCase_char_def is_ascii_def session_redirect_def
  session_issued_def session_payload_def callback_accept_def Let_def

lemma world_after_ann_eval:
  "users world_after_ann =
     [\<lparr> user_id = 1, username = ''s1'', password_hash = None,
        user_email = Some ''Admin@MadFam.io'', display_name = Some ''Ann'',
        oauth_provider = Some ''janua'', oauth_user_id = Some ''s1'', last_login = None \<rparr>]
   \<and> issued world_after_ann = [\<lparr> userId = 1, payload_username = ''s1'' \<rparr>]
   \<and> oauthStates world_after_ann ''st2'' = Some 10000"
  by (simp add: world_after_ann_def eval_defs allowed_default [unfolded env_unset_def])


lemma state_accepted_try:
  assumes "state_accepted now q w" and "code q = Some cd"
  shows "\<exists>st. callback js e c net jwt now q w =
           callback_try js e c net jwt now cd (w\<lparr>oauthStates := (oauthStates w)(st := None)\<rparr>)"
  using assms
  by (auto simp: state_accepted_def callback_def truthy_def split: option.splits)

lemma callback_try_upstream:
  shows "token_endpoint net (token_call c cd) = NotOk body \<Longrightarrow>
           fst (callback_try js e c net jwt now cd w) =
             Redirect (''/?error='' @ encodeURIComponent (''Token exchange failed: '' @ body))"
    and "token_endpoint net (token_call c cd) = Throws m \<Longrightarrow>
           fst (callback_try js e c net jwt now cd w) =
             Redirect (''/?error='' @ encodeURIComponent m)"
    and "token_endpoint net (token_call c cd) = HttpOk tr \<Longrightarrow>
         userinfo_endpoint net (userinfo_call c (access_token tr)) = NotOk body \<Longrightarrow>
           fst (callback_try js e c net jwt now cd w) =
             Redirect (''/?error='' @ encodeURIComponent (''Failed to get user info: '' @ body))"
    and "token_endpoint net (token_call c cd) = HttpOk tr \<Longrightarrow>
         userinfo_endpoint net (userinfo_call c (access_token tr)) = Throws m \<Longrightarrow>
           fst (callback_try js e c net jwt now cd w) =
             Redirect (''/?error='' @ encodeURIComponent m)"
  by (simp_all add: callback_try_def exchangeCodeForToken_def getUserInfo_def callback_catch_def
      token_call_def userinfo_call_def Let_def)

lemma encodeURIComponent_append:
  "encodeURIComponent (a @ b) = encodeURIComponent a @ encodeURIComponent b"
  by (simp add: encodeURIComponent_def)

lemma encodeURIComponent_unreserved:
  "\<forall>ch \<in> set s. uri_unreserved ch \<Longrightarrow> encodeURIComponent s = s"
  by (induction s) (simp_all add: encodeURIComponent_def)

lemma token_failed_prefix:
  "encodeURIComponent ''Token exchange failed: '' = ''Token%20exchange%20failed%3A%20''"
  by (simp add: encodeURIComponent_def uri_unreserved_def alnum_def percent_def hex_upper_def)

lemma scope_encoded:
  "form_encode ''openid profile email agent:view agent:control'' =
     ''openid+profile+email+agent%3Aview+agent%3Acontrol''"
  by (simp add: form_encode_def form_byte_def alnum_def percent_def hex_upper_def)

lemma words_encoded:
  "form_encode ''client_id'' = ''client_id''" "form_encode ''redirect_uri'' = ''redirect_uri''"
  "form_encode ''response_type'' = ''response_type''" "form_encode ''scope'' = ''scope''"
  "form_encode ''state'' = ''state''" "form_encode ''code'' = ''code''"
  "form_encode ''undefined'' = ''undefined''"
  by (simp_all add: form_encode_def form_byte_def alnum_def)

section \<open>Logout\<close>

text \<open>
  Claim C8. Every logout request is answered with the success body, whatever the
  Authorization header holds, whether or not the client is configured, and whatever the
  provider's revocation endpoint does, a throwing fetch included: the failure of the
  revocation call never reaches the caller.
\<close>

theorem logout_always_succeeds:
  "fst (logout c net headers w) =
     JsonResp 200 [(''success'', JBool True), (''message'', JStr ''Logged out successfully'')]"
  by (simp add: logout_def Let_def)

text \<open>
  A configured client, a bearer token and a revocation endpoint that is down: the call is
  made, it throws, and the answer is the success body.
\<close>

theorem logout_always_succeeds_witness:
  "revoke_endpoint net_down
     (PostRevoke ''https://auth.madfam.io/api/v1/oauth/revoke'' (Some ''cid'') (Some ''sec'')
        ''abc'') = Throws ''ECONNREFUSED''
   \<and> calls (snd (logout (JanuaClient env_configured) net_down (headers_bearer ''abc'')
                world_empty)) =
       [PostRevoke ''https://auth.madfam.io/api/v1/oauth/revoke'' (Some ''cid'') (Some ''sec'')
          ''abc'']
   \<and> fst (logout (JanuaClient env_configured) net_down (headers_bearer ''abc'') world_empty) =
       JsonResp 200 [(''success'', JBool True), (''message'', JStr ''Logged out successfully'')]"
  using logout_always_succeeds [of "JanuaClient env_configured" net_down
      "headers_bearer ''abc''" world_empty]
  by (simp add: logout_def revokeToken_def net_down_def JanuaClient_def env_configured_def
      headers_bearer_def world_empty_def bearer_def truthy_def isConfigured_def
      or_default_def Let_def)

section \<open>The state handshake\<close>

text \<open>
  Claim C1. A state token issued by the login endpoint and presented while unexpired
  (\<open>Date.now()\<close> not beyond \<open>expiresAt\<close>) by a callback that carries a code and no
  \<open>error\<close> parameter passes the state check: the callback is the try block run on the store
  with the token deleted, so the token exchange is the next call made and the token is gone
  afterwards. A later callback presenting the same token, at any time and with any other
  parameters, leaves the world as it is (no call to the provider, no account, no session
  token) and answers with a redirect carrying an error indicator, which is
  \<open>invalid_state\<close> when that request too carries a code and no \<open>error\<close> parameter.
  Between the requests the world may change in any way that leaves the token's entry alone.
\<close>

theorem state_token_single_use:
  assumes "isConfigured c" and "length randomBytes = 32"
    and "tok = toString_hex randomBytes"
    and "w1 = snd (login c randomBytes t0 w0)"
    and "oauthStates w tok = oauthStates w1 tok"
    and "t1 \<le> t0 + 600000"
    and "state q1 = Some tok" and "code q1 = Some cd" and "cd \<noteq> []" and "\<not> truthy (error q1)"
    and "w2 = snd (callback js e c net jwt t1 q1 w)"
    and "oauthStates w' tok = oauthStates w2 tok"
    and "state q2 = Some tok"
  shows "fst (login c randomBytes t0 w0) = Redirect (getAuthorizationUrl c tok)
     \<and> callback js e c net jwt t1 q1 w =
         callback_try js e c net jwt t1 cd (w\<lparr>oauthStates := (oauthStates w)(tok := None)\<rparr>)
     \<and> (\<exists>rest. calls w2 = calls w @
            PostToken (januaUrl c @ ''/api/v1/oauth/token'') (clientId c) (clientSecret c)
              cd (redirectUri c) # rest)
     \<and> oauthStates w2 tok = None
     \<and> callback js e c net jwt t2 q2 w' =
         ((if truthy (error q2)
           then Redirect (''/?error='' @
                  encodeURIComponent (js_str (js_or (error_description q2) (error q2))))
           else if \<not> truthy (code q2) then Redirect ''/?error=missing_parameters''
           else Redirect ''/?error=invalid_state''), w')"
proof -
  have ne: "tok \<noteq> []"
    using assms(2,3) toString_hex_nonempty [of randomBytes] by force
  have stored: "oauthStates w tok = Some (t0 + 600000)"
    using assms(1,3,4,5) by (simp add: login_issues)
  have passes: "callback js e c net jwt t1 q1 w =
      callback_try js e c net jwt t1 cd (w\<lparr>oauthStates := (oauthStates w)(tok := None)\<rparr>)"
    using callback_valid_state [OF assms(7) ne assms(8,9,10) stored assms(6)] .
  have gone: "oauthStates w2 tok = None"
    using assms(11) passes by (simp add: callback_try_oauthStates)
  have exch: "\<exists>rest. calls w2 = calls w @
            PostToken (januaUrl c @ ''/api/v1/oauth/token'') (clientId c) (clientSecret c)
              cd (redirectUri c) # rest"
    using assms(11) passes
      callback_try_calls [of js e c net jwt t1 cd "w\<lparr>oauthStates := (oauthStates w)(tok := None)\<rparr>"]
    by simp
  have absent: "oauthStates w' tok = None"
    using assms(12) gone by simp
  have second: "callback js e c net jwt t2 q2 w' =
         ((if truthy (error q2)
           then Redirect (''/?error='' @
                  encodeURIComponent (js_str (js_or (error_description q2) (error q2))))
           else if \<not> truthy (code q2) then Redirect ''/?error=missing_parameters''
           else Redirect ''/?error=invalid_state''), w')"
    using callback_unknown_state [OF assms(13) absent, of js e c net jwt t2] ne by simp
  have first: "fst (login c randomBytes t0 w0) = Redirect (getAuthorizationUrl c tok)"
    using assms(1,3) by (simp add: login_issues)
  show ?thesis using first passes exch gone second by blast
qed

text \<open>
  Login at time 1000 with a configured client, a first callback at 2000 (the provider is
  down, so the exchange that is attempted throws) and a replay at 3000.
\<close>

theorem state_token_single_use_witness:
  "isConfigured (JanuaClient env_configured)
   \<and> length ''0123456789abcdef0123456789abcdef'' = 32
   \<and> oauthStates (snd (login (JanuaClient env_configured) ''0123456789abcdef0123456789abcdef''
         1000 world_empty))
       ''3031323334353637383961626364656630313233343536373839616263646566'' = Some 601000
   \<and> oauthStates
       (snd (callback builtins_example env_unset (JanuaClient env_configured) net_down jwt_example 2000
          (query_ok ''3031323334353637383961626364656630313233343536373839616263646566'' ''c1'')
          (snd (login (JanuaClient env_configured) ''0123456789abcdef0123456789abcdef''
             1000 world_empty))))
       ''3031323334353637383961626364656630313233343536373839616263646566'' = None
   \<and> fst (callback builtins_example env_unset (JanuaClient env_configured) net_down jwt_example 3000
          (query_ok ''3031323334353637383961626364656630313233343536373839616263646566'' ''c2'')
          (snd (callback builtins_example env_unset (JanuaClient env_configured) net_down jwt_example 2000
            (query_ok ''3031323334353637383961626364656630313233343536373839616263646566'' ''c1'')
            (snd (login (JanuaClient env_configured) ''0123456789abcdef0123456789abcdef''
               1000 world_empty)))))
      = Redirect ''/?error=invalid_state''"
  using state_token_single_use [of "JanuaClient env_configured"
      "''0123456789abcdef0123456789abcdef''"
      "''3031323334353637383961626364656630313233343536373839616263646566''"
      "snd (login (JanuaClient env_configured) ''0123456789abcdef0123456789abcdef'' 1000 world_empty)"
      1000 world_empty
      "snd (login (JanuaClient env_configured) ''0123456789abcdef0123456789abcdef'' 1000 world_empty)"
      2000
      "query_ok ''3031323334353637383961626364656630313233343536373839616263646566'' ''c1''"
      "''c1''"
      "snd (callback builtins_example env_unset (JanuaClient env_configured) net_down jwt_example 2000
          (query_ok ''3031323334353637383961626364656630313233343536373839616263646566'' ''c1'')
          (snd (login (JanuaClient env_configured) ''0123456789abcdef0123456789abcdef''
             1000 world_empty)))"
      builtins_example env_unset net_down jwt_example
      "snd (callback builtins_example env_unset (JanuaClient env_configured) net_down jwt_example 2000
          (query_ok ''3031323334353637383961626364656630313233343536373839616263646566'' ''c1'')
          (snd (login (JanuaClient env_configured) ''0123456789abcdef0123456789abcdef''
             1000 world_empty)))"
      "query_ok ''3031323334353637383961626364656630313233343536373839616263646566'' ''c2''"
      3000]
  by (simp add: hex_example login_def isConfigured_def JanuaClient_def env_configured_def
      truthy_def query_ok_def world_empty_def Let_def or_default_def callback_def
      callback_try_def exchangeCodeForToken_def net_down_def callback_catch_def)

text \<open>
  Claim C7. A callback presenting a state token whose \<open>expiresAt\<close> lies before
  \<open>Date.now()\<close> is rejected although the entry is still in the store: the answer is an
  error redirect (\<open>state_expired\<close> when the request carries a code and no \<open>error\<close>
  parameter), no call to the provider is made, and neither the users nor the issued session
  tokens change. Nothing sweeps the store, so this does not depend on a sweep.
\<close>

theorem expired_state_rejected:
  assumes "state q = Some tok" and "oauthStates w tok = Some expiresAt" and "expiresAt < now"
  shows "fst (callback js e c net jwt now q w) =
     (if truthy (error q)
       then Redirect (''/?error='' @
              encodeURIComponent (js_str (js_or (error_description q) (error q))))
       else if \<not> truthy (code q) \<or> tok = [] then Redirect ''/?error=missing_parameters''
       else Redirect ''/?error=state_expired'')
   \<and> calls (snd (callback js e c net jwt now q w)) = calls w
   \<and> users (snd (callback js e c net jwt now q w)) = users w
   \<and> issued (snd (callback js e c net jwt now q w)) = issued w"
  using callback_expired_state [OF assms] by simp

text \<open>The entry of \<open>st1\<close> expires at 10000 and is presented at 10001, to a provider that
  would have answered.\<close>

theorem expired_state_rejected_witness:
  "state (query_ok ''st1'' ''c1'') = Some ''st1''
   \<and> oauthStates world_pending ''st1'' = Some 10000 \<and> (10000::nat) < 10001
   \<and> fst (callback builtins_example env_unset (JanuaClient env_configured) net_janua jwt_example 10001
            (query_ok ''st1'' ''c1'') world_pending) = Redirect ''/?error=state_expired''
   \<and> calls (snd (callback builtins_example env_unset (JanuaClient env_configured) net_janua jwt_example 10001
            (query_ok ''st1'' ''c1'') world_pending)) = []"
  using expired_state_rejected [of "query_ok ''st1'' ''c1''" "''st1''" world_pending 10000 10001
      builtins_example env_unset "JanuaClient env_configured" net_janua jwt_example]
  by (simp add: query_ok_def world_pending_def truthy_def)

section \<open>The allow-list\<close>

text \<open>
  Claim C2. When a callback gets as far as the profile (state accepted, code exchange and
  profile fetch successful) and the lower-cased profile email is not in the allow-list, the
  answer is the redirect with the access-denied message, and the world it leaves has the
  users and the issued session tokens of the world it started from: no account is created,
  no \<open>last_login\<close> is written, no token is signed.
\<close>

theorem unlisted_email_denied:
  assumes "callback_profile c net now q w = Some (userInfo, w2)"
    and "toLowerCase js (or_default (email userInfo) []) \<notin> set (allowedEmails js e)"
  shows "callback js e c net jwt now q w =
     (Redirect
        ''/?error=Access%20denied.%20Your%20email%20is%20not%20authorized%20to%20use%20this%20application.'',
      w2)
   \<and> users w2 = users w \<and> issued w2 = issued w"
  using callback_with_profile [OF assms(1), of js e jwt] callback_profile_world [OF assms(1)] assms(2)
  by simp

text \<open>The profile of \<open>eve@example.com\<close> against the default allow-list.\<close>

theorem unlisted_email_denied_witness:
  "callback_profile (JanuaClient env_configured) net_janua 5000 (query_ok ''st1'' ''c4'')
     world_pending =
   Some (\<lparr> sub = ''s4'', email = Some ''eve@example.com'', name = Some ''Eve'' \<rparr>,
         \<lparr> oauthStates = [''st2'' \<mapsto> 10000], users = [],
           calls = [PostToken ''https://auth.madfam.io/api/v1/oauth/token'' (Some ''cid'')
                      (Some ''sec'') ''c4'' ''https://agents.madfam.io/auth/callback'',
                    GetUserinfo ''https://auth.madfam.io/api/v1/oauth/userinfo''
                      ''Bearer at-c4''],
           issued = [] \<rparr>)
   \<and> ''eve@example.com'' \<notin> set (allowedEmails builtins_example env_unset)
   \<and> callback builtins_example env_unset (JanuaClient env_configured) net_janua jwt_example 5000
        (query_ok ''st1'' ''c4'') world_pending =
      (Redirect
        ''/?error=Access%20denied.%20Your%20email%20is%20not%20authorized%20to%20use%20this%20application.'',
       \<lparr> oauthStates = [''st2'' \<mapsto> 10000], users = [],
           calls = [PostToken ''https://auth.madfam.io/api/v1/oauth/token'' (Some ''cid'')
                      (Some ''sec'') ''c4'' ''https://agents.madfam.io/auth/callback'',
                    GetUserinfo ''https://auth.madfam.io/api/v1/oauth/userinfo''
                      ''Bearer at-c4''],
           issued = [] \<rparr>)"
  using unlisted_email_denied [OF profile_eve, of builtins_example env_unset jwt_example]
  by (simp add: profile_eve allowed_default or_default_def toLowerCase_def toLowerCase_char_def
      is_ascii_def)

text \<open>
  Claim C10. The allow-list check compares lower-cased strings: a callback that has obtained
  a profile goes on to the account and the session token when the lower-cased profile email
  (the empty string when the field is missing) equals some configured entry after that entry
  has been trimmed and lower-cased, and is answered with the access-denied redirect
  otherwise. So an email that differs from a configured address only in letter case is
  accepted, and a profile without email is accepted when some configured entry is empty
  after trimming and denied otherwise. Being accepted is running \<open>callback_accept\<close>, which
  looks up or creates the account of the subject and answers with its session redirect.
\<close>

theorem allow_list_case_insensitive:
  assumes "callback_profile c net now q w = Some (userInfo, w2)"
  shows "(toLowerCase js (or_default (email userInfo) []) \<in>
            (\<lambda>a. toLowerCase js (trim js a)) ` set (split_on CHR '','' (or_default (e ''JANUA_ALLOWED_EMAILS'') ''admin@madfam.io''))
          \<longrightarrow> callback js e c net jwt now q w = callback_accept e jwt now userInfo w2)
     \<and> (toLowerCase js (or_default (email userInfo) []) \<notin>
            (\<lambda>a. toLowerCase js (trim js a)) ` set (split_on CHR '','' (or_default (e ''JANUA_ALLOWED_EMAILS'') ''admin@madfam.io''))
          \<longrightarrow> callback js e c net jwt now q w = (Redirect ''/?error=Access%20denied.%20Your%20email%20is%20not%20authorized%20to%20use%20this%20application.'', w2))
     \<and> (\<forall>a em. a \<in> set (split_on CHR '','' (or_default (e ''JANUA_ALLOWED_EMAILS'') ''admin@madfam.io''))
               \<and> email userInfo = Some em \<and> toLowerCase js em = toLowerCase js (trim js a)
          \<longrightarrow> callback js e c net jwt now q w = callback_accept e jwt now userInfo w2)
     \<and> (email userInfo = None \<longrightarrow>
          (if [] \<in> set (allowedEmails js e)
           then callback js e c net jwt now q w = callback_accept e jwt now userInfo w2
           else callback js e c net jwt now q w = (Redirect ''/?error=Access%20denied.%20Your%20email%20is%20not%20authorized%20to%20use%20this%20application.'', w2)))
     \<and> fst (callback_accept e jwt now userInfo w2) =
          session_redirect e jwt (fst (createOrUpdateUser userInfo now (users w)))
     \<and> users (snd (callback_accept e jwt now userInfo w2)) =
          snd (createOrUpdateUser userInfo now (users w))"
proof -
  have lower_empty: "toLowerCase js [] = []" by (simp add: toLowerCase_def is_ascii_def)
  have lower_or: "\<And>em. toLowerCase js (or_default (Some em) []) = toLowerCase js em"
    by (simp add: or_default_def lower_empty)
  have allowed: "set (allowedEmails js e) =
      (\<lambda>a. toLowerCase js (trim js a)) ` set (split_on CHR '','' (or_default (e ''JANUA_ALLOWED_EMAILS'') ''admin@madfam.io''))"
    by (simp add: allowedEmails_def)
  note cb = callback_with_profile [OF assms, of js e jwt]
  have A: "toLowerCase js (or_default (email userInfo) []) \<in> set (allowedEmails js e) \<longrightarrow>
       callback js e c net jwt now q w = callback_accept e jwt now userInfo w2"
    using cb by simp
  have B: "toLowerCase js (or_default (email userInfo) []) \<notin> set (allowedEmails js e) \<longrightarrow>
       callback js e c net jwt now q w = (Redirect ''/?error=Access%20denied.%20Your%20email%20is%20not%20authorized%20to%20use%20this%20application.'', w2)"
    using cb by simp
  have C: "\<forall>a em. a \<in> set (split_on CHR '','' (or_default (e ''JANUA_ALLOWED_EMAILS'') ''admin@madfam.io''))
               \<and> email userInfo = Some em \<and> toLowerCase js em = toLowerCase js (trim js a)
          \<longrightarrow> callback js e c net jwt now q w = callback_accept e jwt now userInfo w2"
  proof (intro allI impI)
    fix a em
    assume h: "a \<in> set (split_on CHR '','' (or_default (e ''JANUA_ALLOWED_EMAILS'') ''admin@madfam.io''))
               \<and> email userInfo = Some em \<and> toLowerCase js em = toLowerCase js (trim js a)"
    then have "toLowerCase js (or_default (email userInfo) []) \<in> set (allowedEmails js e)"
      by (auto simp: allowed lower_or)
    then show "callback js e c net jwt now q w = callback_accept e jwt now userInfo w2"
      using A by simp
  qed
  have D: "email userInfo = None \<longrightarrow>
          (if [] \<in> set (allowedEmails js e)
           then callback js e c net jwt now q w = callback_accept e jwt now userInfo w2
           else callback js e c net jwt now q w = (Redirect ''/?error=Access%20denied.%20Your%20email%20is%20not%20authorized%20to%20use%20this%20application.'', w2))"
    using A B by (auto simp: or_default_def lower_empty)
  have E: "fst (callback_accept e jwt now userInfo w2) =
          session_redirect e jwt (fst (createOrUpdateUser userInfo now (users w)))"
    using callback_profile_world [OF assms] by (simp add: callback_accept_result)
  have F: "users (snd (callback_accept e jwt now userInfo w2)) =
          snd (createOrUpdateUser userInfo now (users w))"
    using callback_profile_world [OF assms] by (simp add: callback_accept_result)
  show ?thesis using A B C D E F unfolding allowed by blast
qed

text \<open>
  \<open>Admin@MadFam.io\<close> against the default list and against the entry \<open>Admin@MADFAM.io\<close> with
  blanks around it; a profile without email against the default list, and against a list
  with a trailing comma.
\<close>

theorem allow_list_case_insensitive_witness:
  "email (fst (the (callback_profile client_example net_janua 5000
                     (query_ok ''st1'' ''c1'') world_pending))) = Some ''Admin@MadFam.io''
   \<and> split_on CHR '','' (or_default (env_unset ''JANUA_ALLOWED_EMAILS'') ''admin@madfam.io'') =
       [''admin@madfam.io'']
   \<and> toLowerCase builtins_example ''Admin@MadFam.io'' =
       toLowerCase builtins_example (trim builtins_example ''admin@madfam.io'')
   \<and> fst (callback builtins_example env_unset client_example net_janua jwt_example 5000
            (query_ok ''st1'' ''c1'') world_pending) = Redirect ''/?token=jwt.s1&oauth=janua''
   \<and> split_on CHR '',''
         (or_default (env_trailing_comma ''JANUA_ALLOWED_EMAILS'') ''admin@madfam.io'') =
       ['' Admin@MADFAM.io '', ''dev@madfam.io'', []]
   \<and> trim builtins_example '' Admin@MADFAM.io '' = ''Admin@MADFAM.io''
   \<and> toLowerCase builtins_example ''Admin@MadFam.io'' =
       toLowerCase builtins_example (trim builtins_example '' Admin@MADFAM.io '')
   \<and> fst (callback builtins_example env_trailing_comma client_example net_janua jwt_example
            5000 (query_ok ''st1'' ''c1'') world_pending) =
       Redirect ''/?token=jwt.s1&oauth=janua''
   \<and> email (fst (the (callback_profile client_example net_janua 5000
                         (query_ok ''st1'' ''c3'') world_pending))) = None
   \<and> [] \<notin> set (allowedEmails builtins_example env_unset)
   \<and> fst (callback builtins_example env_unset client_example net_janua jwt_example 5000
            (query_ok ''st1'' ''c3'') world_pending) =
       Redirect ''/?error=Access%20denied.%20Your%20email%20is%20not%20authorized%20to%20use%20this%20application.''
   \<and> [] \<in> set (allowedEmails builtins_example env_trailing_comma)
   \<and> fst (callback builtins_example env_trailing_comma client_example net_janua jwt_example
            5000 (query_ok ''st1'' ''c3'') world_pending) =
       Redirect ''/?token=jwt.s3&oauth=janua''"
proof -
  obtain wa where p1:
    "callback_profile client_example net_janua 5000 (query_ok ''st1'' ''c1'') world_pending =
       Some (\<lparr> sub = ''s1'', email = Some ''Admin@MadFam.io'', name = Some ''Ann'' \<rparr>, wa)"
    by (simp add: eval_defs)
  obtain wc where p3:
    "callback_profile client_example net_janua 5000 (query_ok ''st1'' ''c3'') world_pending =
       Some (\<lparr> sub = ''s3'', email = None, name = None \<rparr>, wc)"
    by (simp add: eval_defs)
  have split1: "split_on CHR '','' (or_default (env_unset ''JANUA_ALLOWED_EMAILS'')
                 ''admin@madfam.io'') = [''admin@madfam.io'']"
    by (simp add: env_unset_def or_default_def)
  have split2: "split_on CHR '',''
         (or_default (env_trailing_comma ''JANUA_ALLOWED_EMAILS'') ''admin@madfam.io'') =
       ['' Admin@MADFAM.io '', ''dev@madfam.io'', []]"
    by (simp add: env_trailing_comma_def or_default_def)
  have low: "toLowerCase builtins_example ''Admin@MadFam.io'' = ''admin@madfam.io''"
    by (simp add: toLowerCase_def toLowerCase_char_def is_ascii_def)
  have tr1: "toLowerCase builtins_example (trim builtins_example ''admin@madfam.io'') =
             ''admin@madfam.io''"
    by (simp add: trim_def is_space_def toLowerCase_def toLowerCase_char_def is_ascii_def)
  have tr2: "trim builtins_example '' Admin@MADFAM.io '' = ''Admin@MADFAM.io''"
    by (simp add: trim_def is_space_def is_ascii_def)
  have low2: "toLowerCase builtins_example ''Admin@MADFAM.io'' = ''admin@madfam.io''"
    by (simp add: toLowerCase_def toLowerCase_char_def is_ascii_def)
  have low3: "toLowerCase builtins_example ''dev@madfam.io'' = ''dev@madfam.io''"
    by (simp add: toLowerCase_def toLowerCase_char_def is_ascii_def)
  have tr3: "trim builtins_example ''dev@madfam.io'' = ''dev@madfam.io''"
    by (simp add: trim_def is_space_def is_ascii_def)
  have ord: "or_default (Some ''Admin@MadFam.io'') [] = ''Admin@MadFam.io''"
    by (simp add: or_default_def)
  have tr4: "trim builtins_example [] = []" "toLowerCase builtins_example [] = []"
    by (simp_all add: trim_def toLowerCase_def is_ascii_def)
  have u1: "fst (createOrUpdateUser
                  \<lparr> sub = ''s1'', email = Some ''Admin@MadFam.io'', name = Some ''Ann'' \<rparr>
                  5000 (users world_pending)) =
            \<lparr> user_id = 1, username = ''s1'', password_hash = None,
              user_email = Some ''Admin@MadFam.io'', display_name = Some ''Ann'',
              oauth_provider = Some ''janua'', oauth_user_id = Some ''s1'', last_login = None \<rparr>"
    by (simp add: createOrUpdateUser_def getUserByUsername_def createUser_def next_id_def
        world_pending_def Let_def)
  have u3: "fst (createOrUpdateUser \<lparr> sub = ''s3'', email = None, name = None \<rparr>
                  5000 (users world_pending)) =
            \<lparr> user_id = 1, username = ''s3'', password_hash = None,
              user_email = None, display_name = None,
              oauth_provider = Some ''janua'', oauth_user_id = Some ''s3'', last_login = None \<rparr>"
    by (simp add: createOrUpdateUser_def getUserByUsername_def createUser_def next_id_def
        world_pending_def Let_def)
  have red: "\<And>e u. JWT_EXPIRATION e = ''8h'' \<Longrightarrow>
      session_redirect e jwt_example u =
        Redirect (''/?token=jwt.'' @ username u @ ''&oauth=janua'')"
    by (simp add: session_redirect_def session_payload_def jwt_example_def)
  have ex: "JWT_EXPIRATION env_unset = ''8h''" "JWT_EXPIRATION env_trailing_comma = ''8h''"
    by (simp_all add: JWT_EXPIRATION_def env_unset_def env_trailing_comma_def or_default_def)
  note t1 = allow_list_case_insensitive [OF p1, of builtins_example env_unset jwt_example]
  note t2 = allow_list_case_insensitive [OF p1, of builtins_example env_trailing_comma
      jwt_example]
  note t3 = allow_list_case_insensitive [OF p3, of builtins_example env_unset jwt_example]
  note t4 = allow_list_case_insensitive [OF p3, of builtins_example env_trailing_comma
      jwt_example]
  have r1: "fst (callback builtins_example env_unset client_example net_janua jwt_example 5000
            (query_ok ''st1'' ''c1'') world_pending) = Redirect ''/?token=jwt.s1&oauth=janua''"
    using t1 by (simp add: split1 low tr1 u1 red ex ord)
  have r2: "fst (callback builtins_example env_trailing_comma client_example net_janua
            jwt_example 5000 (query_ok ''st1'' ''c1'') world_pending) =
       Redirect ''/?token=jwt.s1&oauth=janua''"
    using t2 by (simp add: split2 low tr2 low2 low3 tr3 tr4 u1 red ex ord)
  have r3: "fst (callback builtins_example env_unset client_example net_janua jwt_example 5000
            (query_ok ''st1'' ''c3'') world_pending) = Redirect ''/?error=Access%20denied.%20Your%20email%20is%20not%20authorized%20to%20use%20this%20application.''"
    using t3 by (simp add: allowed_default)
  have r4: "fst (callback builtins_example env_trailing_comma client_example net_janua
            jwt_example 5000 (query_ok ''st1'' ''c3'') world_pending) =
       Redirect ''/?token=jwt.s3&oauth=janua''"
    using t4 by (simp add: allowed_trailing_comma u3 red ex)
  show ?thesis
    using r1 r2 r3 r4
    by (simp add: p1 p3 split1 split2 low tr1 tr2 low2 allowed_default allowed_trailing_comma)
qed

section \<open>Local accounts of federated identities\<close>

text \<open>
  Claim C9. An accepted callback looks the local account up by the subject of the profile
  (as username): when there is one, that account gets the login time; when there is none,
  an account is created whose username and \<open>oauth_user_id\<close> are the subject, whatever
  accounts with the same email exist. The email takes no part in the choice. The answer is
  the session redirect of that account: its token, or the redirect of the catch clause when
  \<open>jwt.sign\<close> throws, in which case no token is issued. Hence of two accepted callbacks with
  different subjects, sharing the email or not, each is answered for the account named by
  its own subject, and the two accounts have different ids (ids being unique in the store
  to begin with); where both tokens are signed, they carry these different ids.
\<close>

theorem accounts_keyed_by_subject:
  assumes "callback_profile c net t1 q1 w = Some (ui1, wa)"
    and "toLowerCase js (or_default (email ui1) []) \<in> set (allowedEmails js e)"
    and "w' = snd (callback js e c net jwt t1 q1 w)"
    and "callback_profile c net t2 q2 w' = Some (ui2, wb)"
    and "toLowerCase js (or_default (email ui2) []) \<in> set (allowedEmails js e)"
    and "w'' = snd (callback js e c net jwt t2 q2 w')"
    and "sub ui1 \<noteq> sub ui2"
    and "distinct (map user_id (users w))"
  shows "(case getUserByUsername (users w) (sub ui1) of
            Some u \<Rightarrow>
              users w' = updateLastLogin (users w) (user_id u) t1
              \<and> issued w' = issued w @ session_issued e jwt u
              \<and> fst (callback js e c net jwt t1 q1 w) = session_redirect e jwt u
          | None \<Rightarrow>
              users w' = users w @
                [\<lparr> user_id = next_id (users w), username = sub ui1, password_hash = None,
                   user_email = email ui1, display_name = name ui1,
                   oauth_provider = Some ''janua'', oauth_user_id = Some (sub ui1),
                   last_login = None \<rparr>]
              \<and> issued w' = issued w @ session_issued e jwt
                  \<lparr> user_id = next_id (users w), username = sub ui1, password_hash = None,
                   user_email = email ui1, display_name = name ui1,
                   oauth_provider = Some ''janua'', oauth_user_id = Some (sub ui1),
                   last_login = None \<rparr>
              \<and> fst (callback js e c net jwt t1 q1 w) =
                  session_redirect e jwt
                    \<lparr> user_id = next_id (users w), username = sub ui1, password_hash = None,
                   user_email = email ui1, display_name = name ui1,
                   oauth_provider = Some ''janua'', oauth_user_id = Some (sub ui1),
                   last_login = None \<rparr>)
     \<and> users w'' = snd (createOrUpdateUser ui2 t2 (users w'))
     \<and> issued w'' = issued w' @ session_issued e jwt (fst (createOrUpdateUser ui2 t2 (users w')))
     \<and> fst (callback js e c net jwt t2 q2 w') = session_redirect e jwt (fst (createOrUpdateUser ui2 t2 (users w')))
     \<and> username (fst (createOrUpdateUser ui1 t1 (users w))) = sub ui1
     \<and> username (fst (createOrUpdateUser ui2 t2 (users w'))) = sub ui2
     \<and> user_id (fst (createOrUpdateUser ui1 t1 (users w))) \<noteq> user_id (fst (createOrUpdateUser ui2 t2 (users w')))
     \<and> (session_issued e jwt (fst (createOrUpdateUser ui1 t1 (users w))) \<noteq> [] \<and> session_issued e jwt (fst (createOrUpdateUser ui2 t2 (users w'))) \<noteq> [] \<longrightarrow>
          payload_username (last (issued w')) = sub ui1
          \<and> payload_username (last (issued w'')) = sub ui2
          \<and> userId (last (issued w')) \<noteq> userId (last (issued w'')))"
proof -
  note first = callback_accepts [OF assms(1,2), of jwt]
  note second = callback_accepts [OF assms(4,5), of jwt]
  have db': "users w' = snd (createOrUpdateUser ui1 t1 (users w))"
    using first(2) assms(3) by simp
  have is': "issued w' = issued w @ session_issued e jwt (fst (createOrUpdateUser ui1 t1 (users w)))"
    using first(3) assms(3) by simp
  have db'': "users w'' = snd (createOrUpdateUser ui2 t2 (users w'))"
    using second(2) assms(6) by simp
  have is'': "issued w'' = issued w' @ session_issued e jwt (fst (createOrUpdateUser ui2 t2 (users w')))"
    using second(3) assms(6) by simp
  have part1: "(case getUserByUsername (users w) (sub ui1) of
            Some u \<Rightarrow>
              users w' = updateLastLogin (users w) (user_id u) t1
              \<and> issued w' = issued w @ session_issued e jwt u
              \<and> fst (callback js e c net jwt t1 q1 w) = session_redirect e jwt u
          | None \<Rightarrow>
              users w' = users w @
                [\<lparr> user_id = next_id (users w), username = sub ui1, password_hash = None,
                   user_email = email ui1, display_name = name ui1,
                   oauth_provider = Some ''janua'', oauth_user_id = Some (sub ui1),
                   last_login = None \<rparr>]
              \<and> issued w' = issued w @ session_issued e jwt
                  \<lparr> user_id = next_id (users w), username = sub ui1, password_hash = None,
                   user_email = email ui1, display_name = name ui1,
                   oauth_provider = Some ''janua'', oauth_user_id = Some (sub ui1),
                   last_login = None \<rparr>
              \<and> fst (callback js e c net jwt t1 q1 w) =
                  session_redirect e jwt
                    \<lparr> user_id = next_id (users w), username = sub ui1, password_hash = None,
                   user_email = email ui1, display_name = name ui1,
                   oauth_provider = Some ''janua'', oauth_user_id = Some (sub ui1),
                   last_login = None \<rparr>)"
    using first assms(3)
      createOrUpdateUser_cases [where db="users w" and userInfo=ui1 and now=t1]
    by (auto split: option.splits)
  have n1: "username (fst (createOrUpdateUser ui1 t1 (users w))) = sub ui1"
    by (rule createOrUpdateUser_username)
  have n2: "username (fst (createOrUpdateUser ui2 t2 (users w'))) = sub ui2"
    by (rule createOrUpdateUser_username)
  have d: "user_id (fst (createOrUpdateUser ui1 t1 (users w))) \<noteq> user_id (fst (createOrUpdateUser ui2 t2 (users w')))"
    using distinct_subjects_distinct_ids [OF assms(8,7), of t1 t2] db' by simp
  have toks: "session_issued e jwt (fst (createOrUpdateUser ui1 t1 (users w))) \<noteq> [] \<and> session_issued e jwt (fst (createOrUpdateUser ui2 t2 (users w'))) \<noteq> [] \<longrightarrow>
          payload_username (last (issued w')) = sub ui1
          \<and> payload_username (last (issued w'')) = sub ui2
          \<and> userId (last (issued w')) \<noteq> userId (last (issued w''))"
  proof
    assume h: "session_issued e jwt (fst (createOrUpdateUser ui1 t1 (users w))) \<noteq> [] \<and> session_issued e jwt (fst (createOrUpdateUser ui2 t2 (users w'))) \<noteq> []"
    have s1: "session_issued e jwt (fst (createOrUpdateUser ui1 t1 (users w))) = [session_payload (fst (createOrUpdateUser ui1 t1 (users w)))]"
      using h session_issued_cases [of e jwt "fst (createOrUpdateUser ui1 t1 (users w))"] by simp
    have s2: "session_issued e jwt (fst (createOrUpdateUser ui2 t2 (users w'))) = [session_payload (fst (createOrUpdateUser ui2 t2 (users w')))]"
      using h session_issued_cases [of e jwt "fst (createOrUpdateUser ui2 t2 (users w'))"] by simp
    show "payload_username (last (issued w')) = sub ui1
          \<and> payload_username (last (issued w'')) = sub ui2
          \<and> userId (last (issued w')) \<noteq> userId (last (issued w''))"
      using is' is'' s1 s2 n1 n2 d by (simp add: session_payload_def)
  qed
  show ?thesis
    using part1 db'' is'' second(1) n1 n2 d toks by blast
qed

text \<open>
  Subjects \<open>s1\<close> and \<open>s2\<close>, both with the email \<open>Admin@MadFam.io\<close>, one after the other on
  an empty store: accounts 1 and 2.
\<close>

theorem accounts_keyed_by_subject_witness:
  "email (fst (the (callback_profile client_example net_janua 5000 (query_ok ''st1'' ''c1'')
          world_pending))) = Some ''Admin@MadFam.io''
   \<and> email (fst (the (callback_profile client_example net_janua 6000 (query_ok ''st2'' ''c2'')
          world_after_ann))) = Some ''Admin@MadFam.io''
   \<and> sub (fst (the (callback_profile client_example net_janua 5000 (query_ok ''st1'' ''c1'')
          world_pending))) = ''s1''
   \<and> sub (fst (the (callback_profile client_example net_janua 6000 (query_ok ''st2'' ''c2'')
          world_after_ann))) = ''s2''
   \<and> fst (callback builtins_example env_unset client_example net_janua jwt_example 6000
         (query_ok ''st2'' ''c2'') world_after_ann) = Redirect ''/?token=jwt.s2&oauth=janua''
   \<and> issued (snd (callback builtins_example env_unset client_example net_janua jwt_example 6000
         (query_ok ''st2'' ''c2'') world_after_ann)) =
       [\<lparr> userId = 1, payload_username = ''s1'' \<rparr>, \<lparr> userId = 2, payload_username = ''s2'' \<rparr>]
   \<and> map username (users (snd (callback builtins_example env_unset client_example net_janua
         jwt_example 6000 (query_ok ''st2'' ''c2'') world_after_ann))) = [''s1'', ''s2'']
   \<and> map user_id (users (snd (callback builtins_example env_unset client_example net_janua
         jwt_example 6000 (query_ok ''st2'' ''c2'') world_after_ann))) = [1, 2]
   \<and> userId (last (issued world_after_ann)) \<noteq>
       userId (last (issued (snd (callback builtins_example env_unset client_example net_janua
         jwt_example 6000 (query_ok ''st2'' ''c2'') world_after_ann))))"
proof -
  obtain wa where p1:
    "callback_profile client_example net_janua 5000 (query_ok ''st1'' ''c1'') world_pending =
       Some (\<lparr> sub = ''s1'', email = Some ''Admin@MadFam.io'', name = Some ''Ann'' \<rparr>, wa)"
    by (simp add: eval_defs)
  obtain wb where p2:
    "callback_profile client_example net_janua 6000 (query_ok ''st2'' ''c2'') world_after_ann =
       Some (\<lparr> sub = ''s2'', email = Some ''Admin@MadFam.io'', name = Some ''Bob'' \<rparr>, wb)"
    using world_after_ann_eval
    by (simp add: callback_profile_def query_ok_def truthy_def exchangeCodeForToken_def
        getUserInfo_def net_janua_def client_example_def JanuaClient_def env_configured_def
        or_default_def js_str_def Let_def)
  have a: "toLowerCase builtins_example (or_default (Some ''Admin@MadFam.io'') [])
             \<in> set (allowedEmails builtins_example env_unset)"
    by (simp add: allowed_default or_default_def toLowerCase_def toLowerCase_char_def
        is_ascii_def)
  have a1: "toLowerCase builtins_example (or_default
              (email \<lparr> sub = ''s1'', email = Some ''Admin@MadFam.io'', name = Some ''Ann'' \<rparr>) [])
            \<in> set (allowedEmails builtins_example env_unset)"
    using a by simp
  have a2: "toLowerCase builtins_example (or_default
              (email \<lparr> sub = ''s2'', email = Some ''Admin@MadFam.io'', name = Some ''Bob'' \<rparr>) [])
            \<in> set (allowedEmails builtins_example env_unset)"
    using a by simp
  have ne: "sub \<lparr> sub = ''s1'', email = Some ''Admin@MadFam.io'', name = Some ''Ann'' \<rparr> \<noteq>
            sub \<lparr> sub = ''s2'', email = Some ''Admin@MadFam.io'', name = Some ''Bob'' \<rparr>"
    by simp
  have ids: "distinct (map user_id (users world_pending))"
    by (simp add: world_pending_def)
  note t = accounts_keyed_by_subject [OF p1 a1 world_after_ann_def p2 a2 refl ne ids]
  have u2: "createOrUpdateUser
              \<lparr> sub = ''s2'', email = Some ''Admin@MadFam.io'', name = Some ''Bob'' \<rparr> 6000
              [\<lparr> user_id = 1, username = ''s1'', password_hash = None,
                user_email = Some ''Admin@MadFam.io'', display_name = Some ''Ann'',
                oauth_provider = Some ''janua'', oauth_user_id = Some ''s1'',
                last_login = None \<rparr>] =
            (\<lparr> user_id = 2, username = ''s2'', password_hash = None,
                user_email = Some ''Admin@MadFam.io'', display_name = Some ''Bob'',
                oauth_provider = Some ''janua'', oauth_user_id = Some ''s2'',
                last_login = None \<rparr>,
             [\<lparr> user_id = 1, username = ''s1'', password_hash = None,
                user_email = Some ''Admin@MadFam.io'', display_name = Some ''Ann'',
                oauth_provider = Some ''janua'', oauth_user_id = Some ''s1'',
                last_login = None \<rparr>,
              \<lparr> user_id = 2, username = ''s2'', password_hash = None,
                user_email = Some ''Admin@MadFam.io'', display_name = Some ''Bob'',
                oauth_provider = Some ''janua'', oauth_user_id = Some ''s2'',
                last_login = None \<rparr>])"
    by (simp add: createOrUpdateUser_def getUserByUsername_def createUser_def next_id_def
        Let_def)
  have sg: "\<And>u. session_issued env_unset jwt_example u = [session_payload u]"
       "\<And>u. session_redirect env_unset jwt_example u =
              Redirect (''/?token=jwt.'' @ username u @ ''&oauth=janua'')"
    by (simp_all add: session_issued_def session_redirect_def session_payload_def
        jwt_example_def JWT_EXPIRATION_def env_unset_def or_default_def)
  have cou: "createOrUpdateUser
               \<lparr> sub = ''s2'', email = Some ''Admin@MadFam.io'', name = Some ''Bob'' \<rparr> 6000
               (users world_after_ann) =
             (\<lparr> user_id = 2, username = ''s2'', password_hash = None,
                user_email = Some ''Admin@MadFam.io'', display_name = Some ''Bob'',
                oauth_provider = Some ''janua'', oauth_user_id = Some ''s2'',
                last_login = None \<rparr>,
              [\<lparr> user_id = 1, username = ''s1'', password_hash = None,
                user_email = Some ''Admin@MadFam.io'', display_name = Some ''Ann'',
                oauth_provider = Some ''janua'', oauth_user_id = Some ''s1'',
                last_login = None \<rparr>,
               \<lparr> user_id = 2, username = ''s2'', password_hash = None,
                user_email = Some ''Admin@MadFam.io'', display_name = Some ''Bob'',
                oauth_provider = Some ''janua'', oauth_user_id = Some ''s2'',
                last_login = None \<rparr>])"
    using world_after_ann_eval u2 by simp
  have iw: "issued world_after_ann = [\<lparr> userId = 1, payload_username = ''s1'' \<rparr>]"
    using world_after_ann_eval by simp
  have g1: "users (snd (callback builtins_example env_unset client_example net_janua jwt_example 6000
         (query_ok ''st2'' ''c2'') world_after_ann)) =
       [\<lparr> user_id = 1, username = ''s1'', password_hash = None,
                user_email = Some ''Admin@MadFam.io'', display_name = Some ''Ann'',
                oauth_provider = Some ''janua'', oauth_user_id = Some ''s1'',
                last_login = None \<rparr>,
        \<lparr> user_id = 2, username = ''s2'', password_hash = None,
                user_email = Some ''Admin@MadFam.io'', display_name = Some ''Bob'',
                oauth_provider = Some ''janua'', oauth_user_id = Some ''s2'',
                last_login = None \<rparr>]"
    using t [THEN conjunct2, THEN conjunct1] by (simp add: cou)
  have g2: "issued (snd (callback builtins_example env_unset client_example net_janua jwt_example 6000
         (query_ok ''st2'' ''c2'') world_after_ann)) =
       [\<lparr> userId = 1, payload_username = ''s1'' \<rparr>, \<lparr> userId = 2, payload_username = ''s2'' \<rparr>]"
    using t [THEN conjunct2, THEN conjunct2, THEN conjunct1]
    by (simp add: cou sg iw session_payload_def)
  have g3: "fst (callback builtins_example env_unset client_example net_janua jwt_example 6000
         (query_ok ''st2'' ''c2'') world_after_ann) = Redirect ''/?token=jwt.s2&oauth=janua''"
    using t [THEN conjunct2, THEN conjunct2, THEN conjunct2, THEN conjunct1]
    by (simp add: cou sg)
  show ?thesis
    using g1 g2 g3 by (simp add: p1 p2 iw)
qed

text \<open>
  With \<open>JWT_EXPIRATION=abc\<close> the signing throws after the account has been created: the
  answer is the redirect of the catch clause and no token is issued.
\<close>

lemma sign_failure_example:
  "JWT_EXPIRATION env_bad_expiration = ''abc''
   \<and> fst (callback builtins_example env_bad_expiration client_example net_janua jwt_example
            5000 (query_ok ''st1'' ''c1'') world_pending) =
       Redirect (''/?error='' @
         encodeURIComponent ''expiresIn should be a number of seconds or a timespan'')
   \<and> map username (users (snd (callback builtins_example env_bad_expiration client_example
         net_janua jwt_example 5000 (query_ok ''st1'' ''c1'') world_pending))) = [''s1'']
   \<and> issued (snd (callback builtins_example env_bad_expiration client_example
         net_janua jwt_example 5000 (query_ok ''st1'' ''c1'') world_pending)) = []"
proof -
  have al: "allowedEmails builtins_example env_bad_expiration = [''admin@madfam.io'']"
    by (simp add: allowedEmails_def env_bad_expiration_def or_default_def trim_def is_space_def
        toLowerCase_def toLowerCase_char_def is_ascii_def)
  show ?thesis
    by (simp add: al [unfolded env_bad_expiration_def] callback_profile_def callback_def callback_try_def callback_catch_def
        query_ok_def world_pending_def truthy_def exchangeCodeForToken_def getUserInfo_def
        net_janua_def client_example_def JanuaClient_def env_configured_def or_default_def
        js_str_def createOrUpdateUser_def getUserByUsername_def createUser_def next_id_def
        generateToken_def jwt_example_def JWT_SECRET_def JWT_EXPIRATION_def NODE_ENV_def
        js_or_def env_bad_expiration_def toLowerCase_def toLowerCase_char_def is_ascii_def
        callback_accept_def Let_def)
qed

section \<open>Failed callbacks\<close>

text \<open>
  Claim C4, as amended. Every failed callback is answered with a redirect to the
  application root whose query string is \<open>error=\<close> followed by the failure message,
  percent-encoded by \<open>encodeURIComponent\<close>: the provider's \<open>error_description\<close> (or
  \<open>error\<close>) when the provider sent an \<open>error\<close> parameter, \<open>missing_parameters\<close>,
  \<open>invalid_state\<close> or \<open>state_expired\<close> for the parameter and state checks, and for an
  upstream failure the message of the error thrown: \<open>Token exchange failed: \<close> or
  \<open>Failed to get user info: \<close> followed by the body the provider answered with, or the
  message of the error \<open>fetch\<close> threw. The upstream text is therefore delivered to the
  caller, percent-encoded, and as it is when it has only unreserved characters.
\<close>

theorem callback_failure_redirects:
  "(truthy (error q) \<longrightarrow>
      fst (callback js e c net jwt now q w) =
        Redirect (''/?error='' @
          encodeURIComponent (js_str (js_or (error_description q) (error q)))))
   \<and> (\<not> truthy (error q) \<and> (\<not> truthy (code q) \<or> \<not> truthy (state q)) \<longrightarrow>
      fst (callback js e c net jwt now q w) = Redirect ''/?error=missing_parameters'')
   \<and> (\<not> truthy (error q) \<and> truthy (code q) \<and> state q = Some st \<and> st \<noteq> []
        \<and> oauthStates w st = None \<longrightarrow>
      fst (callback js e c net jwt now q w) = Redirect ''/?error=invalid_state'')
   \<and> (\<not> truthy (error q) \<and> truthy (code q) \<and> state q = Some st \<and> st \<noteq> []
        \<and> oauthStates w st = Some expiresAt \<and> expiresAt < now \<longrightarrow>
      fst (callback js e c net jwt now q w) = Redirect ''/?error=state_expired'')
   \<and> (state_accepted now q w \<and> code q = Some cd
        \<and> token_endpoint net (token_call c cd) = NotOk body \<longrightarrow>
      fst (callback js e c net jwt now q w) =
        Redirect (''/?error='' @ encodeURIComponent (''Token exchange failed: '' @ body)))
   \<and> (state_accepted now q w \<and> code q = Some cd
        \<and> token_endpoint net (token_call c cd) = NotOk body
        \<and> (\<forall>ch \<in> set body. uri_unreserved ch) \<longrightarrow>
      fst (callback js e c net jwt now q w) =
        Redirect (''/?error=Token%20exchange%20failed%3A%20'' @ body))
   \<and> (state_accepted now q w \<and> code q = Some cd
        \<and> token_endpoint net (token_call c cd) = Throws m \<longrightarrow>
      fst (callback js e c net jwt now q w) = Redirect (''/?error='' @ encodeURIComponent m))
   \<and> (state_accepted now q w \<and> code q = Some cd
        \<and> token_endpoint net (token_call c cd) = HttpOk tr
        \<and> userinfo_endpoint net (userinfo_call c (access_token tr)) = NotOk body \<longrightarrow>
      fst (callback js e c net jwt now q w) =
        Redirect (''/?error='' @ encodeURIComponent (''Failed to get user info: '' @ body)))
   \<and> (state_accepted now q w \<and> code q = Some cd
        \<and> token_endpoint net (token_call c cd) = HttpOk tr
        \<and> userinfo_endpoint net (userinfo_call c (access_token tr)) = Throws m \<longrightarrow>
      fst (callback js e c net jwt now q w) = Redirect (''/?error='' @ encodeURIComponent m))"
proof -
  have perr: "truthy (error q) \<longrightarrow>
      fst (callback js e c net jwt now q w) =
        Redirect (''/?error='' @
          encodeURIComponent (js_str (js_or (error_description q) (error q))))"
    by (simp add: callback_def)
  have miss: "\<not> truthy (error q) \<and> (\<not> truthy (code q) \<or> \<not> truthy (state q)) \<longrightarrow>
      fst (callback js e c net jwt now q w) = Redirect ''/?error=missing_parameters''"
    by (auto simp: callback_def)
  have inv: "\<not> truthy (error q) \<and> truthy (code q) \<and> state q = Some st \<and> st \<noteq> []
        \<and> oauthStates w st = None \<longrightarrow>
      fst (callback js e c net jwt now q w) = Redirect ''/?error=invalid_state''"
    using callback_unknown_state [of q st w js e c net jwt now] by auto
  have ex: "\<not> truthy (error q) \<and> truthy (code q) \<and> state q = Some st \<and> st \<noteq> []
        \<and> oauthStates w st = Some expiresAt \<and> expiresAt < now \<longrightarrow>
      fst (callback js e c net jwt now q w) = Redirect ''/?error=state_expired''"
    using callback_expired_state(1) [of q st w expiresAt now js e c net jwt] by auto
  have up: "state_accepted now q w \<and> code q = Some cd \<longrightarrow>
      (\<exists>w'. fst (callback js e c net jwt now q w) = fst (callback_try js e c net jwt now cd w'))"
    using state_accepted_try [of now q w cd js e c net jwt] by metis
  have verb: "(\<forall>ch \<in> set body. uri_unreserved ch) \<longrightarrow>
      encodeURIComponent (''Token exchange failed: '' @ body) =
        ''Token%20exchange%20failed%3A%20'' @ body"
    using encodeURIComponent_append [of "''Token exchange failed: ''" body]
      encodeURIComponent_unreserved [of body] token_failed_prefix
    by auto
  have u1: "state_accepted now q w \<and> code q = Some cd
        \<and> token_endpoint net (token_call c cd) = NotOk body \<longrightarrow>
      fst (callback js e c net jwt now q w) =
        Redirect (''/?error='' @ encodeURIComponent (''Token exchange failed: '' @ body))"
    using up callback_try_upstream(1) [of net c cd body js e jwt now] by auto
  have u2: "state_accepted now q w \<and> code q = Some cd
        \<and> token_endpoint net (token_call c cd) = NotOk body
        \<and> (\<forall>ch \<in> set body. uri_unreserved ch) \<longrightarrow>
      fst (callback js e c net jwt now q w) =
        Redirect (''/?error=Token%20exchange%20failed%3A%20'' @ body)"
    using u1 verb by simp
  have u3: "state_accepted now q w \<and> code q = Some cd
        \<and> token_endpoint net (token_call c cd) = Throws m \<longrightarrow>
      fst (callback js e c net jwt now q w) = Redirect (''/?error='' @ encodeURIComponent m)"
    using up callback_try_upstream(2) [of net c cd m js e jwt now] by auto
  have u4: "state_accepted now q w \<and> code q = Some cd
        \<and> token_endpoint net (token_call c cd) = HttpOk tr
        \<and> userinfo_endpoint net (userinfo_call c (access_token tr)) = NotOk body \<longrightarrow>
      fst (callback js e c net jwt now q w) =
        Redirect (''/?error='' @ encodeURIComponent (''Failed to get user info: '' @ body))"
    using up callback_try_upstream(3) [of net c cd tr body js e jwt now] by auto
  have u5: "state_accepted now q w \<and> code q = Some cd
        \<and> token_endpoint net (token_call c cd) = HttpOk tr
        \<and> userinfo_endpoint net (userinfo_call c (access_token tr)) = Throws m \<longrightarrow>
      fst (callback js e c net jwt now q w) = Redirect (''/?error='' @ encodeURIComponent m)"
    using up callback_try_upstream(4) [of net c cd tr m js e jwt now] by auto
  show ?thesis
    using perr miss inv ex u1 u2 u3 u4 u5 by (intro conjI)
qed

text \<open>
  The claim as stated, that the error text of the provider never appears in the redirect,
  fails: the token endpoint answers 400 with the body \<open>invalid_grant\<close>, and the redirect
  ends with that body.
\<close>

theorem upstream_text_in_redirect:
  "token_endpoint net_invalid_grant
     (PostToken ''https://auth.madfam.io/api/v1/oauth/token'' (Some ''cid'') (Some ''sec'')
        ''c1'' ''https://agents.madfam.io/auth/callback'') = NotOk ''invalid_grant''
   \<and> calls (snd (callback builtins_example env_unset client_example net_invalid_grant jwt_example 5000
                   (query_ok ''st1'' ''c1'') world_pending)) =
       [PostToken ''https://auth.madfam.io/api/v1/oauth/token'' (Some ''cid'') (Some ''sec'')
          ''c1'' ''https://agents.madfam.io/auth/callback'']
   \<and> fst (callback builtins_example env_unset client_example net_invalid_grant jwt_example 5000
            (query_ok ''st1'' ''c1'') world_pending) =
       Redirect (''/?error=Token%20exchange%20failed%3A%20'' @ ''invalid_grant'')"
  by (simp add: callback_def callback_try_def callback_catch_def query_ok_def world_pending_def
      truthy_def exchangeCodeForToken_def net_invalid_grant_def client_example_def
      JanuaClient_def env_configured_def or_default_def Let_def
      encodeURIComponent_def uri_unreserved_def alnum_def percent_def hex_upper_def)

text \<open>
  The amended statement at the same input.
\<close>

theorem callback_failure_redirects_witness:
  "state_accepted 5000 (query_ok ''st1'' ''c1'') world_pending
   \<and> code (query_ok ''st1'' ''c1'') = Some ''c1''
   \<and> token_endpoint net_invalid_grant (token_call client_example ''c1'') = NotOk ''invalid_grant''
   \<and> list_all uri_unreserved ''invalid_grant''
   \<and> fst (callback builtins_example env_unset client_example net_invalid_grant jwt_example 5000
            (query_ok ''st1'' ''c1'') world_pending) =
       Redirect ''/?error=Token%20exchange%20failed%3A%20invalid_grant''"
  using callback_failure_redirects [of "query_ok ''st1'' ''c1''" builtins_example env_unset
      client_example
      net_invalid_grant jwt_example 5000 world_pending "''st1''" 10000 "''c1''"
      "''invalid_grant''"]
  by (simp add: state_accepted_def query_ok_def world_pending_def truthy_def
      net_invalid_grant_def encodeURIComponent_def uri_unreserved_def alnum_def percent_def
      hex_upper_def)


section \<open>Configuration\<close>

text \<open>
  Claim C5, as amended. The check for an unset client id or secret is made by the login
  endpoint, not by the URL builder: when \<open>isConfigured\<close> is false, \<open>GET /login\<close> answers
  500 with the configuration error and leaves the world as it is (no state stored, no URL
  built, no call made). \<open>getAuthorizationUrl\<close> itself has no check: with the client id
  unset it returns the URL with \<open>client_id=undefined\<close>.
\<close>

theorem login_checks_configuration:
  "(\<not> isConfigured c \<longrightarrow>
      login c randomBytes now w =
        (JsonResp 500
           [(''error'', JStr ''Janua OAuth2 not configured''),
            (''hint'', JStr
               ''Set JANUA_CLIENT_ID and JANUA_CLIENT_SECRET environment variables'')], w))
   \<and> (clientId c = None \<longrightarrow>
      getAuthorizationUrl c st =
        januaUrl c @ ''/api/v1/oauth/authorize?client_id=undefined&redirect_uri='' @
        form_encode (redirectUri c) @
        ''&response_type=code&scope=openid+profile+email+agent%3Aview+agent%3Acontrol&state='' @
        form_encode st)"
  by (simp add: login_def getAuthorizationUrl_def URLSearchParams_toString_def js_str_def
      scope_encoded words_encoded)

text \<open>
  The claim as stated fails: with neither variable set, the builder returns a URL.
\<close>

theorem authorization_url_without_client_id:
  "clientId (JanuaClient env_unset) = None
   \<and> clientSecret (JanuaClient env_unset) = None
   \<and> \<not> isConfigured (JanuaClient env_unset)
   \<and> getAuthorizationUrl (JanuaClient env_unset) ''abc'' =
       ''https://auth.madfam.io/api/v1/oauth/authorize?client_id=undefined&redirect_uri=https%3A%2F%2Fagents.madfam.io%2Fauth%2Fcallback&response_type=code&scope=openid+profile+email+agent%3Aview+agent%3Acontrol&state=abc''"
  by (simp add: getAuthorizationUrl_def JanuaClient_def env_unset_def or_default_def js_str_def
      isConfigured_def truthy_def URLSearchParams_toString_def form_encode_def form_byte_def
      alnum_def percent_def hex_upper_def)

text \<open>
  The amended statement for the client built from an empty environment.
\<close>

theorem login_checks_configuration_witness:
  "\<not> isConfigured (JanuaClient env_unset)
   \<and> clientId (JanuaClient env_unset) = None
   \<and> login (JanuaClient env_unset) ''0123456789abcdef0123456789abcdef'' 1000 world_empty =
        (JsonResp 500
           [(''error'', JStr ''Janua OAuth2 not configured''),
            (''hint'', JStr
               ''Set JANUA_CLIENT_ID and JANUA_CLIENT_SECRET environment variables'')],
         world_empty)"
  using login_checks_configuration [of "JanuaClient env_unset"
      "''0123456789abcdef0123456789abcdef''" 1000 world_empty "''abc''"]
  by (simp add: isConfigured_def JanuaClient_def env_unset_def truthy_def)

section \<open>The authentication middleware\<close>

text \<open>
  Claim C3, as amended. Outside platform mode (\<open>VITE_IS_PLATFORM\<close> not \<open>true\<close>), a
  request without Authorization header, or whose header has no second space-separated part,
  is answered 401; a request whose bearer token fails \<open>jwt.verify\<close> is answered 403
  (\<open>Invalid token\<close>), not 401.
\<close>

theorem middleware_rejections:
  assumes "e ''VITE_IS_PLATFORM'' \<noteq> Some ''true''"
  shows "(headers ''authorization'' = None \<longrightarrow>
            authenticateToken e jwt db headers =
              Respond (JsonResp 401 [(''error'', JStr ''Access denied. No token provided.'')]))
     \<and> (\<not> truthy (bearer (headers ''authorization'')) \<longrightarrow>
            authenticateToken e jwt db headers =
              Respond (JsonResp 401 [(''error'', JStr ''Access denied. No token provided.'')]))
     \<and> (bearer (headers ''authorization'') = Some t \<and> t \<noteq> []
          \<and> jwt_verify jwt t (JWT_SECRET e) = None \<longrightarrow>
            authenticateToken e jwt db headers =
              Respond (JsonResp 403 [(''error'', JStr ''Invalid token'')]))"
  using assms
  by (auto simp: authenticateToken_def bearer_def truthy_def Let_def split: option.splits)

text \<open>
  The claim as stated fails twice: a token that does not verify gets 403, and in platform
  mode a request without header is let through as the first user of the store.
\<close>

theorem invalid_token_is_403:
  "headers_bearer ''bad'' ''authorization'' = Some ''Bearer bad''
   \<and> jwt_verify jwt_example ''bad'' (JWT_SECRET env_unset) = None
   \<and> authenticateToken env_unset jwt_example [user_local] (headers_bearer ''bad'') =
       Respond (JsonResp 403 [(''error'', JStr ''Invalid token'')])
   \<and> authenticateToken env_platform jwt_example [user_local] (\<lambda>k. None) = Next user_local"
  by (simp add: authenticateToken_def headers_bearer_def bearer_def truthy_def jwt_example_def
      env_unset_def env_platform_def NODE_ENV_def or_default_def getFirstUser_def Let_def)

text \<open>
  The amended statement with platform mode off: no header, and a token that does not
  verify.
\<close>

theorem middleware_rejections_witness:
  "env_unset ''VITE_IS_PLATFORM'' \<noteq> Some ''true''
   \<and> authenticateToken env_unset jwt_example [user_local] (\<lambda>k. None) =
       Respond (JsonResp 401 [(''error'', JStr ''Access denied. No token provided.'')])
   \<and> bearer (headers_bearer ''bad'' ''authorization'') = Some ''bad''
   \<and> jwt_verify jwt_example ''bad'' (JWT_SECRET env_unset) = None
   \<and> authenticateToken env_unset jwt_example [user_local] (headers_bearer ''bad'') =
       Respond (JsonResp 403 [(''error'', JStr ''Invalid token'')])"
  using middleware_rejections [of env_unset "\<lambda>k. None" jwt_example "[user_local]" "''bad''"]
    middleware_rejections [of env_unset "headers_bearer ''bad''" jwt_example "[user_local]"
      "''bad''"]
  by (simp add: headers_bearer_def bearer_def truthy_def jwt_example_def env_unset_def)

text \<open>
  Claim C6, as amended. Outside platform mode, a bearer token that verifies but whose
  \<open>userId\<close> is no longer in the store is answered 401 (\<open>Invalid token. User not found.\<close>).
\<close>

theorem deleted_user_rejected:
  assumes "e ''VITE_IS_PLATFORM'' \<noteq> Some ''true''"
    and "bearer (headers ''authorization'') = Some t" and "t \<noteq> []"
    and "jwt_verify jwt t (JWT_SECRET e) = Some decoded"
    and "getUserById db (userId decoded) = None"
  shows "authenticateToken e jwt db headers =
           Respond (JsonResp 401 [(''error'', JStr ''Invalid token. User not found.'')])"
  using assms by (simp add: authenticateToken_def truthy_def Let_def)

text \<open>
  The claim as stated fails in platform mode, where the token is not looked at: the
  token of the deleted user 7 is let through as the first user of the store.
\<close>

theorem platform_mode_skips_user_check:
  "bearer (headers_bearer ''good'' ''authorization'') = Some ''good''
   \<and> jwt_verify jwt_example ''good'' (JWT_SECRET env_platform) =
       Some \<lparr> userId = 7, payload_username = ''s1'' \<rparr>
   \<and> getUserById [user_local] 7 = None
   \<and> authenticateToken env_platform jwt_example [user_local] (headers_bearer ''good'') =
       Next user_local"
  by (simp add: authenticateToken_def headers_bearer_def bearer_def truthy_def jwt_example_def
      env_platform_def NODE_ENV_def or_default_def getFirstUser_def getUserById_def
      user_local_def Let_def)

text \<open>
  The amended statement with platform mode off, same token and store.
\<close>

theorem deleted_user_rejected_witness:
  "env_unset ''VITE_IS_PLATFORM'' \<noteq> Some ''true''
   \<and> bearer (headers_bearer ''good'' ''authorization'') = Some ''good''
   \<and> jwt_verify jwt_example ''good'' (JWT_SECRET env_unset) =
       Some \<lparr> userId = 7, payload_username = ''s1'' \<rparr>
   \<and> getUserById [user_local] 7 = None
   \<and> authenticateToken env_unset jwt_example [user_local] (headers_bearer ''good'') =
       Respond (JsonResp 401 [(''error'', JStr ''Invalid token. User not found.'')])"
  using deleted_user_rejected [of env_unset "headers_bearer ''good''" "''good''" jwt_example
      "\<lparr> userId = 7, payload_username = ''s1'' \<rparr>" "[user_local]"]
  by (simp add: headers_bearer_def bearer_def truthy_def jwt_example_def env_unset_def
      getUserById_def user_local_def)


end
